theory Spec2Isabelle
  imports Main "HOL-Library.Sublist"
begin

section \<open>JavaScript strings and numbers\<close>

text \<open>
  A JavaScript string is modelled by the byte list of its UTF-8 encoding, so the ASCII
  characters the script tests for (\<open>/\<close>, \<open>%\<close>, the scheme \<open>file://\<close>) are single
  elements. Every \<open>substring\<close> of the script cuts off a prefix whose presence it has just
  tested with \<open>startsWith\<close>, so cutting by \<open>drop\<close> is the same in code units and in bytes.
\<close>

definition startsWith :: "string \<Rightarrow> string \<Rightarrow> bool" where
  "startsWith s p = prefix p s"

definition endsWith :: "string \<Rightarrow> string \<Rightarrow> bool" where
  "endsWith s p = (length p \<le> length s \<and> drop (length s - length p) s = p)"

definition substring :: "string \<Rightarrow> nat \<Rightarrow> string" where
  "substring s n = drop n s"

text \<open>\<open>v || d\<close> on an optional string: an absent and an empty value are both falsy.\<close>

definition orElse :: "string option \<Rightarrow> string \<Rightarrow> string" where
  "orElse v d = (case v of None \<Rightarrow> d | Some s \<Rightarrow> if s = [] then d else s)"

text \<open>\<open>v ?? d\<close> on an optional number: only an absent value takes the default.\<close>

definition nullish :: "int option \<Rightarrow> int \<Rightarrow> int" where
  "nullish v d = (case v of None \<Rightarrow> d | Some n \<Rightarrow> n)"

text \<open>The decimal text a template literal gives an integer.\<close>

fun digits :: "nat \<Rightarrow> string" where
  "digits n = (if n < 10 then [''0123456789'' ! n]
               else digits (n div 10) @ [''0123456789'' ! (n mod 10)])"

declare digits.simps [simp del]

definition numToString :: "int \<Rightarrow> string" where
  "numToString n = (if n < 0 then ''-'' @ digits (nat (- n)) else digits (nat n))"

definition newline :: string where
  "newline = [CHR 0x0A]"

text \<open>\<open>xs.join(sep)\<close>.\<close>

fun join :: "string \<Rightarrow> string list \<Rightarrow> string" where
  "join sep [] = []"
| "join sep [x] = x"
| "join sep (x # y # ys) = x @ sep @ join sep (y # ys)"

subsection \<open>decodeURIComponent\<close>

text \<open>
  The built-in percent decoder, after the Decode operation of ECMAScript with an empty
  set of preserved escapes: a character other than \<open>%\<close> is copied; \<open>%\<close> must be followed
  by two hexadecimal digits; an octet below 128 is the character itself; an octet with
  two to four leading one bits opens a UTF-8 sequence whose remaining octets must be
  escaped too, and the sequence must be well formed. \<open>None\<close> is the URIError.
\<close>

definition hexDigit :: "char \<Rightarrow> nat option" where
  "hexDigit c =
     (let n = (of_char c :: nat) in
      if 48 \<le> n \<and> n \<le> 57 then Some (n - 48)
      else if 65 \<le> n \<and> n \<le> 70 then Some (n - 55)
      else if 97 \<le> n \<and> n \<le> 102 then Some (n - 87)
      else None)"

definition parseHexOctet :: "char \<Rightarrow> char \<Rightarrow> nat option" where
  "parseHexOctet a b =
     (case hexDigit a of None \<Rightarrow> None
      | Some h \<Rightarrow> (case hexDigit b of None \<Rightarrow> None | Some l \<Rightarrow> Some (16 * h + l)))"

definition leadingOnes :: "nat \<Rightarrow> nat" where
  "leadingOnes b =
     (if b < 0x80 then 0 else if b < 0xC0 then 1 else if b < 0xE0 then 2
      else if b < 0xF0 then 3 else if b < 0xF8 then 4 else 5)"

text \<open>The \<open>k\<close> escaped continuation octets at the head of a string.\<close>

fun continuationOctets :: "nat \<Rightarrow> string \<Rightarrow> nat list option" where
  "continuationOctets 0 s = Some []"
| "continuationOctets (Suc k) (p # a # b # s) =
     (if p \<noteq> CHR ''%'' then None
      else (case parseHexOctet a b of None \<Rightarrow> None
            | Some c \<Rightarrow> map_option (Cons c) (continuationOctets k s)))"
| "continuationOctets (Suc k) s = None"

definition isCont :: "nat \<Rightarrow> bool" where
  "isCont b = (0x80 \<le> b \<and> b \<le> 0xBF)"

text \<open>The well-formed UTF-8 sequences of two to four octets.\<close>

fun validUtf8 :: "nat list \<Rightarrow> bool" where
  "validUtf8 [a, b] = (0xC2 \<le> a \<and> a \<le> 0xDF \<and> isCont b)"
| "validUtf8 [a, b, c] =
     ((a = 0xE0 \<and> 0xA0 \<le> b \<and> b \<le> 0xBF
       \<or> 0xE1 \<le> a \<and> a \<le> 0xEC \<and> isCont b
       \<or> a = 0xED \<and> 0x80 \<le> b \<and> b \<le> 0x9F
       \<or> 0xEE \<le> a \<and> a \<le> 0xEF \<and> isCont b) \<and> isCont c)"
| "validUtf8 [a, b, c, d] =
     ((a = 0xF0 \<and> 0x90 \<le> b \<and> b \<le> 0xBF
       \<or> 0xF1 \<le> a \<and> a \<le> 0xF3 \<and> isCont b
       \<or> a = 0xF4 \<and> 0x80 \<le> b \<and> b \<le> 0x8F) \<and> isCont c \<and> isCont d)"
| "validUtf8 os = False"

function decodeURIComponent :: "string \<Rightarrow> string option" where
  "decodeURIComponent [] = Some []"
| "decodeURIComponent (c # cs) =
     (if c \<noteq> CHR ''%'' then map_option (Cons c) (decodeURIComponent cs)
      else if length cs < 2 then None
      else (case parseHexOctet (cs ! 0) (cs ! 1) of
        None \<Rightarrow> None
      | Some b \<Rightarrow>
          (let n = leadingOnes b in
           if n = 0 then map_option (Cons (char_of b)) (decodeURIComponent (drop 2 cs))
           else if n = 1 \<or> n > 4 then None
           else (case continuationOctets (n - 1) (drop 2 cs) of
             None \<Rightarrow> None
           | Some os \<Rightarrow>
               if validUtf8 (b # os)
               then map_option (append (map char_of (b # os)))
                      (decodeURIComponent (drop (2 + 3 * (n - 1)) cs))
               else None))))"
  by pat_completeness auto
termination
  by (relation "measure length") auto

section \<open>Offenses\<close>

text \<open>
  An offense as the engine gives it: an object whose \<open>uri\<close>, \<open>message\<close> and \<open>check\<close> are
  strings when present, whose \<open>start\<close> holds integers when present, and whose \<open>severity\<close>
  is an integer. Every field the script guards with \<open>||\<close>, \<open>?.\<close> or \<open>??\<close> is optional.
\<close>

record position =
  line :: "int option"
  character :: "int option"

record offense =
  uri :: "string option"
  start :: "position option"
  severity :: int
  message :: "string option"
  check :: "string option"

section \<open>formatOffenseBlock\<close>

text \<open>\<open>offense.start?.line ?? 0\<close> and \<open>offense.start?.character ?? 0\<close>.\<close>

definition startRow :: "offense \<Rightarrow> int" where
  "startRow off = (case start off of None \<Rightarrow> 0 | Some p \<Rightarrow> nullish (line p) 0)"

definition startCol :: "offense \<Rightarrow> int" where
  "startCol off = (case start off of None \<Rightarrow> 0 | Some p \<Rightarrow> nullish (character p) 0)"

definition offenseUri :: "offense \<Rightarrow> string" where
  "offenseUri off = orElse (uri off) ''file:///unknown_path''"

definition baseWorkspacePath :: "string \<Rightarrow> string" where
  "baseWorkspacePath workspacePath =
     (if endsWith workspacePath ''/'' then workspacePath else workspacePath @ ''/'')"

text \<open>
  The first half of \<open>formatOffenseBlock\<close>: the values of its variables \<open>relativePath\<close> and
  \<open>fileLink\<close> when the branching on the uri is done. An empty \<open>fileLink\<close> is no link.
\<close>

definition pathAndLink :: "offense \<Rightarrow> string \<Rightarrow> string \<Rightarrow> string \<Rightarrow> string \<times> string" where
  "pathAndLink off workspacePath repoUrl commitSha =
     (if startsWith (offenseUri off) ''file://'' then
        (case decodeURIComponent (substring (offenseUri off) 7) of
           None \<Rightarrow> (offenseUri off, [])
         | Some decodedPath \<Rightarrow>
             if startsWith decodedPath (baseWorkspacePath workspacePath) then
               (let relativePath =
                      substring decodedPath (length (baseWorkspacePath workspacePath))
                in if repoUrl \<noteq> [] \<and> commitSha \<noteq> [] \<and> relativePath \<noteq> ''unknown_path''
                      \<and> startRow off > 0
                   then
                     (let linkPath = (if startsWith relativePath ''/''
                                      then substring relativePath 1 else relativePath)
                      in (relativePath,
                          repoUrl @ ''/blob/'' @ commitSha @ ''/'' @ linkPath @ ''#L''
                            @ numToString (startRow off)))
                   else (relativePath, []))
             else (decodedPath, []))
      else (offenseUri off, []))"

definition relativePathOf :: "offense \<Rightarrow> string \<Rightarrow> string \<Rightarrow> string \<Rightarrow> string" where
  "relativePathOf off workspacePath repoUrl commitSha =
     fst (pathAndLink off workspacePath repoUrl commitSha)"

definition fileLinkOf :: "offense \<Rightarrow> string \<Rightarrow> string \<Rightarrow> string \<Rightarrow> string" where
  "fileLinkOf off workspacePath repoUrl commitSha =
     snd (pathAndLink off workspacePath repoUrl commitSha)"

definition locationSuffix :: "offense \<Rightarrow> string" where
  "locationSuffix off = '':`'' @ numToString (startRow off) @ '':'' @ numToString (startCol off) @ ''`''"

definition description :: "offense \<Rightarrow> string" where
  "description off =
     orElse (message off) ''No message'' @ '' ('' @ orElse (check off) ''No check code'' @ '')''"

definition formatOffenseBlock :: "offense \<Rightarrow> string \<Rightarrow> string \<Rightarrow> string \<Rightarrow> string" where
  "formatOffenseBlock off workspacePath repoUrl commitSha =
     (let (relPath, link) = pathAndLink off workspacePath repoUrl commitSha;
          pathLink = (if link \<noteq> [] then ''['' @ relPath @ '']('' @ link @ '')'' else relPath)
      in ''- '' @ pathLink @ locationSuffix off @ newline @ ''  '' @ description off)"

section \<open>The process and its surroundings\<close>

text \<open>
  What the engine's one call does. A raised value is \<open>null\<close> or \<open>undefined\<close>, or it is
  given by its \<open>message\<close> property and by the text \<open>String\<close> gives it. A resolved value
  either exposes an array \<open>offenses\<close> or does not pass the test
  \<open>results && Array.isArray(results.offenses)\<close>.
\<close>

datatype thrown = Nullish | Thrown "string option" string

datatype results = Malformed | Offenses "offense list"

datatype engineRun = Raises thrown | Resolves results

text \<open>
  What \<open>require\<close> of the engine's package gives: it fails, or its \<open>themeCheckRun\<close> is no
  function (with the text \<open>typeof\<close> gives it), or it is the engine.
\<close>

datatype themeCheck = RequireFails | NotFunction string | Function engineRun

text \<open>
  The surroundings of one run: the environment variables, the working directory, the
  script's directory, the engine, the clock, and the file system as far as the script
  asks it: whether the directory holding a path exists, whether the \<open>n\<close>-th append to
  the output file fails for another reason, and whether writing the report file fails.
\<close>

record world =
  PR_NUMBER :: "string option"
  WORKSPACE_PATH :: "string option"
  GITHUB_OUTPUT :: "string option"
  REPO_URL :: "string option"
  COMMIT_SHA :: "string option"
  RUN_ID :: "string option"
  FAIL_ON_WARNINGS :: "string option"
  RUNNER_TEMP :: "string option"
  cwd :: string
  scriptDir :: string
  engine :: themeCheck
  now :: nat
  parentDirExists :: "string \<Rightarrow> bool"
  appendFails :: "nat \<Rightarrow> bool"
  writeFails :: bool

text \<open>
  What a run leaves behind: the chunks appended to the output file, in order; how often
  an append was tried; the report file written, as path and content; how often the
  engine was called.
\<close>

record state =
  outputFile :: "string list"
  appendCalls :: nat
  reportFile :: "(string \<times> string) option"
  engineCalls :: nat

definition initialState :: state where
  "initialState = \<lparr>outputFile = [], appendCalls = 0, reportFile = None, engineCalls = 0\<rparr>"

subsection \<open>The module's constants\<close>

definition themePath :: "world \<Rightarrow> string" where
  "themePath w = cwd w"

definition prNumber :: "world \<Rightarrow> string" where
  "prNumber w = orElse (PR_NUMBER w) ''N/A''"

definition workspacePath :: "world \<Rightarrow> string" where
  "workspacePath w = orElse (WORKSPACE_PATH w) (themePath w)"

definition outputFilePath :: "world \<Rightarrow> string option" where
  "outputFilePath w = GITHUB_OUTPUT w"

definition repoUrl :: "world \<Rightarrow> string" where
  "repoUrl w = orElse (REPO_URL w) []"

definition commitSha :: "world \<Rightarrow> string" where
  "commitSha w = orElse (COMMIT_SHA w) []"

definition runId :: "world \<Rightarrow> string" where
  "runId w = orElse (RUN_ID w) []"

definition failOnWarnings :: "world \<Rightarrow> bool" where
  "failOnWarnings w = (FAIL_ON_WARNINGS w = Some ''true'')"

subsection \<open>setOutput\<close>

definition replaceChar :: "char \<Rightarrow> string \<Rightarrow> string \<Rightarrow> string" where
  "replaceChar c r s = concat (map (\<lambda>x. if x = c then r else [x]) s)"

definition escapeValue :: "string \<Rightarrow> string" where
  "escapeValue v =
     replaceChar (CHR 0x0D) ''%0D'' (replaceChar (CHR 0x0A) ''%0A'' (replaceChar (CHR ''%'') ''%25'' v))"

definition outputLine :: "string \<Rightarrow> string \<Rightarrow> string" where
  "outputLine name v = name @ ''='' @ escapeValue v @ newline"

text \<open>
  \<open>appendFileSync\<close> raises when the directory of the output file does not exist, or for
  another reason the world gives; \<open>setOutput\<close> catches the error and goes on.
\<close>

definition setOutput :: "world \<Rightarrow> string \<Rightarrow> string \<Rightarrow> state \<Rightarrow> state" where
  "setOutput w name v s =
     (case outputFilePath w of
        None \<Rightarrow> s
      | Some p \<Rightarrow>
          if p = [] then s
          else if parentDirExists w p \<and> \<not> appendFails w (appendCalls s)
          then s\<lparr>outputFile := outputFile s @ [outputLine name v],
                 appendCalls := Suc (appendCalls s)\<rparr>
          else s\<lparr>appendCalls := Suc (appendCalls s)\<rparr>)"

subsection \<open>path.join\<close>

text \<open>
  The POSIX \<open>path.join\<close> of the platform on two arguments: the non-empty arguments are
  joined by \<open>/\<close> and the result is normalised, which drops empty and \<open>.\<close> segments,
  lets a \<open>..\<close> segment take back the segment before it, and keeps a leading and a
  trailing separator.
\<close>

fun splitOn :: "char \<Rightarrow> string \<Rightarrow> string list" where
  "splitOn c [] = [[]]"
| "splitOn c (x # xs) =
     (if x = c then [] # splitOn c xs
      else (case splitOn c xs of [] \<Rightarrow> [[x]] | y # ys \<Rightarrow> (x # y) # ys))"

definition pushSegment :: "bool \<Rightarrow> string list \<Rightarrow> string \<Rightarrow> string list" where
  "pushSegment allowAboveRoot res seg =
     (if seg = [] \<or> seg = ''.'' then res
      else if seg = ''..'' then
        (if res \<noteq> [] \<and> last res \<noteq> ''..'' then butlast res
         else if allowAboveRoot then res @ [''..''] else res)
      else res @ [seg])"

definition normalizeString :: "string \<Rightarrow> bool \<Rightarrow> string" where
  "normalizeString path allowAboveRoot =
     join ''/'' (foldl (pushSegment allowAboveRoot) [] (splitOn (CHR ''/'') path))"

definition normalize :: "string \<Rightarrow> string" where
  "normalize path =
     (if path = [] then ''.''
      else
        (let isAbsolute = (hd path = CHR ''/'');
             trailingSeparator = (last path = CHR ''/'');
             res = normalizeString path (\<not> isAbsolute)
         in if res = [] then (if isAbsolute then ''/'' else if trailingSeparator then ''./'' else ''.'')
            else (if isAbsolute then ''/'' else []) @ res @ (if trailingSeparator then ''/'' else [])))"

definition pathJoin :: "string \<Rightarrow> string \<Rightarrow> string" where
  "pathJoin a b =
     (let parts = filter (\<lambda>x. x \<noteq> []) [a, b]
      in if parts = [] then ''.'' else normalize (join ''/'' parts))"

subsection \<open>writeCommentBodyToFile\<close>

definition bodyFile :: "world \<Rightarrow> string" where
  "bodyFile w =
     pathJoin (orElse (RUNNER_TEMP w) (scriptDir w)) (''comment-body-'' @ digits (now w) @ ''.md'')"

text \<open>\<open>None\<close>: \<open>writeFileSync\<close> raised, and nothing after it ran.\<close>

definition writeCommentBodyToFile :: "world \<Rightarrow> string \<Rightarrow> state \<Rightarrow> state option" where
  "writeCommentBodyToFile w body s =
     (if writeFails w then None
      else Some (setOutput w ''fallback_comment_body'' []
                  (setOutput w ''comment_body_file'' (bodyFile w)
                    (s\<lparr>reportFile := Some (bodyFile w, body)\<rparr>))))"

section \<open>runCheck\<close>

definition reportTitle :: "world \<Rightarrow> string" where
  "reportTitle w = ''## Theme Check Report for PR #'' @ prNumber w"

definition actionRunUrl :: "world \<Rightarrow> string" where
  "actionRunUrl w =
     (if repoUrl w \<noteq> [] \<and> runId w \<noteq> [] then repoUrl w @ ''/actions/runs/'' @ runId w else [])"

definition viewMoreLink :: "world \<Rightarrow> string" where
  "viewMoreLink w =
     (if actionRunUrl w \<noteq> []
      then newline @ newline @ ''[View Full Action Run Details]('' @ actionRunUrl w @ '')''
      else [])"

text \<open>The three marks of the report, by the bytes the script's file holds for them.\<close>

definition successMark :: string where
  "successMark = [CHR 0xE2, CHR 0x80, CHR 0x9A, CHR 0xC3, CHR 0xBA, CHR 0xC3, CHR 0x96]"

definition errorsMark :: string where
  "errorsMark = [CHR 0xEF, CHR 0xA3, CHR 0xBF, CHR 0xC3, CHR 0xBC, CHR 0xC3, CHR 0xB6, CHR 0xC2, CHR 0xAE]"

definition warningMark :: string where
  "warningMark = [CHR 0xE2, CHR 0x80, CHR 0x9A, CHR 0xC3, CHR 0xB6, CHR 0xE2, CHR 0x80, CHR 0xA0,
                  CHR 0xC3, CHR 0x94, CHR 0xE2, CHR 0x88, CHR 0x8F, CHR 0xC3, CHR 0xA8]"

subsection \<open>Separating and counting the offenses\<close>

definition errorOffenses :: "offense list \<Rightarrow> offense list" where
  "errorOffenses allOffenses = filter (\<lambda>off. severity off = 0) allOffenses"

definition warningOffenses :: "offense list \<Rightarrow> offense list" where
  "warningOffenses allOffenses = filter (\<lambda>off. severity off = 1) allOffenses"

definition totalErrorCount :: "offense list \<Rightarrow> nat" where
  "totalErrorCount allOffenses = length (errorOffenses allOffenses)"

definition totalWarningCount :: "offense list \<Rightarrow> nat" where
  "totalWarningCount allOffenses = length (warningOffenses allOffenses)"

definition countsSummary :: "nat \<Rightarrow> nat \<Rightarrow> string" where
  "countsSummary e n = digits e @ '' error(s), '' @ digits n @ '' warning(s) found.''"

subsection \<open>The report body\<close>

definition formatted :: "world \<Rightarrow> offense list \<Rightarrow> string" where
  "formatted w offs =
     (if length offs > 0
      then join newline (map (\<lambda>off. formatOffenseBlock off (workspacePath w) (repoUrl w) (commitSha w)) offs)
      else [])"

definition offensesBody :: "world \<Rightarrow> offense list \<Rightarrow> string" where
  "offensesBody w allOffenses =
     (if totalErrorCount allOffenses = 0 \<and> totalWarningCount allOffenses = 0
      then successMark @ '' (''
             @ countsSummary (totalErrorCount allOffenses) (totalWarningCount allOffenses) @ '')''
      else
        (let formattedErrors = formatted w (errorOffenses allOffenses);
             formattedWarnings = formatted w (warningOffenses allOffenses)
         in (if formattedErrors \<noteq> []
             then ''### '' @ errorsMark @ '' Errors'' @ newline @ formattedErrors @ newline
             else [])
            @ (if formattedWarnings \<noteq> []
               then (if formattedErrors \<noteq> [] then newline @ ''---'' @ newline else [])
                    @ ''### '' @ warningMark @ '' Warnings'' @ newline @ formattedWarnings
               else [])))"

subsection \<open>The guarded block\<close>

text \<open>
  The variables of \<open>runCheck\<close> that the publishing half reads: they start as the
  degraded values and are assigned in the guarded block.
\<close>

record report =
  summaryLine :: string
  reportBody :: string
  jobShouldFail :: bool
  errorTotal :: nat
  warningTotal :: nat

definition outputPathValid :: "world \<Rightarrow> bool" where
  "outputPathValid w =
     (case outputFilePath w of None \<Rightarrow> False | Some p \<Rightarrow> p \<noteq> [] \<and> parentDirExists w p)"

definition outputFilePathText :: "world \<Rightarrow> string" where
  "outputFilePathText w = (case outputFilePath w of None \<Rightarrow> ''undefined'' | Some p \<Rightarrow> p)"

definition notFunctionMessage :: "string \<Rightarrow> string" where
  "notFunctionMessage t =
     ''Failed to access themeCheckRun function correctly from '' @ [CHR 0x27]
       @ ''@shopify/theme-check-node'' @ [CHR 0x27] @ ''. Expected function, got: '' @ t"

text \<open>
  \<open>error.message || error\<close> in a template literal. Reading \<open>message\<close> of \<open>null\<close> or
  \<open>undefined\<close> raises a TypeError: that is \<open>None\<close>.
\<close>

definition errorText :: "thrown \<Rightarrow> string option" where
  "errorText t = (case t of Nullish \<Rightarrow> None | Thrown m s \<Rightarrow> Some (orElse m s))"

text \<open>\<open>new Error(msg)\<close>.\<close>

definition newError :: "string \<Rightarrow> thrown" where
  "newError msg = Thrown (Some msg) (if msg = [] then ''Error'' else ''Error: '' @ msg)"

definition checkedReport :: "world \<Rightarrow> offense list \<Rightarrow> report" where
  "checkedReport w allOffenses =
     \<lparr>summaryLine = countsSummary (totalErrorCount allOffenses) (totalWarningCount allOffenses),
      reportBody = offensesBody w allOffenses,
      jobShouldFail =
        (if totalErrorCount allOffenses > 0 then True
         else if totalWarningCount allOffenses > 0 \<and> failOnWarnings w then True
         else False),
      errorTotal = totalErrorCount allOffenses,
      warningTotal = totalWarningCount allOffenses\<rparr>"

text \<open>
  The \<open>try\<close> block: \<open>Inl\<close> is the value it raised, \<open>Inr\<close> the variables it assigned.
  With no \<open>themeCheckRun\<close> at all its \<open>typeof\<close> is \<open>undefined\<close>.
\<close>

definition tryBlock :: "world \<Rightarrow> state \<Rightarrow> (thrown + report) \<times> state" where
  "tryBlock w s =
     (if \<not> outputPathValid w
      then (Inl (newError (''GITHUB_OUTPUT path invalid or directory does not exist: ''
                            @ outputFilePathText w)), s)
      else
        (case engine w of
           RequireFails \<Rightarrow> (Inl (newError (notFunctionMessage ''undefined'')), s)
         | NotFunction t \<Rightarrow> (Inl (newError (notFunctionMessage t)), s)
         | Function run \<Rightarrow>
             (let s1 = s\<lparr>engineCalls := Suc (engineCalls s)\<rparr>
              in case run of
                   Raises t \<Rightarrow> (Inl t, s1)
                 | Resolves Malformed \<Rightarrow>
                     (Inl (newError
                        ''Theme check did not return the expected offenses array structure.''), s1)
                 | Resolves (Offenses allOffenses) \<Rightarrow>
                     (Inr (checkedReport w allOffenses), s1))))"

text \<open>
  The \<open>catch\<close> block: the counts keep their initial zeros. It assigns the summary line,
  then builds the body from the text of the caught value; when that raises, the block
  is left with the summary line assigned and nothing else (\<open>interruptedReport\<close>), and
  the error is not caught again.
\<close>

definition failedBody :: "string \<Rightarrow> string" where
  "failedBody text =
     warningMark @ '' **Theme Check Script Failed**'' @ newline @ ''```'' @ newline
       @ text @ newline @ ''```''"

definition failedReport :: "string \<Rightarrow> report" where
  "failedReport text =
     \<lparr>summaryLine = ''Error: Failed to run theme check script.'',
      reportBody = failedBody text,
      jobShouldFail = True,
      errorTotal = 0,
      warningTotal = 0\<rparr>"

definition interruptedReport :: report where
  "interruptedReport =
     \<lparr>summaryLine = ''Error: Failed to run theme check script.'',
      reportBody = [],
      jobShouldFail = False,
      errorTotal = 0,
      warningTotal = 0\<rparr>"

definition catchBlock :: "thrown \<Rightarrow> report option" where
  "catchBlock e = (case errorText e of None \<Rightarrow> None | Some text \<Rightarrow> Some (failedReport text))"

subsection \<open>Publishing and exit\<close>

definition finalCommentBody :: "world \<Rightarrow> report \<Rightarrow> string" where
  "finalCommentBody w r =
     reportTitle w @ newline @ ''**'' @ summaryLine r @ ''**'' @ newline @ newline
       @ reportBody r @ viewMoreLink w"

definition fallbackBody :: "world \<Rightarrow> report \<Rightarrow> string" where
  "fallbackBody w r =
     reportTitle w @ newline @ ''**'' @ summaryLine r @ ''**'' @ newline @ newline
       @ warningMark @ '' Error: Could not write report file.'' @ viewMoreLink w"

text \<open>The second guarded block and the exit: the result is the exit code and the state.\<close>

definition publish :: "world \<Rightarrow> report \<Rightarrow> state \<Rightarrow> nat \<times> state" where
  "publish w r s =
     (case writeCommentBodyToFile w (finalCommentBody w r) s of
        Some s1 \<Rightarrow>
          (if jobShouldFail r then 1 else 0,
           setOutput w ''warning_count'' (digits (warningTotal r))
             (setOutput w ''error_count'' (digits (errorTotal r)) s1))
      | None \<Rightarrow>
          (1,
           setOutput w ''fallback_comment_body'' (fallbackBody w r)
             (setOutput w ''comment_body_file'' [] s)))"

text \<open>
  When the \<open>catch\<close> block itself raises, the promise of \<open>runCheck\<close> is rejected with
  nobody handling it: the publishing half never runs, and Node (from version 15, the
  action's default being 20) ends the process with code 1.
\<close>

definition runCheck :: "world \<Rightarrow> nat \<times> state" where
  "runCheck w =
     (case tryBlock w initialState of
        (Inr r, s) \<Rightarrow> publish w r s
      | (Inl e, s) \<Rightarrow>
          (case catchBlock e of Some r \<Rightarrow> publish w r s | None \<Rightarrow> (1, s)))"

text \<open>
  The whole script: when \<open>require\<close> fails the process exits with 1 while the module
  loads, before \<open>runCheck\<close> is called.
\<close>

definition main :: "world \<Rightarrow> nat \<times> state" where
  "main w = (case engine w of RequireFails \<Rightarrow> (1, initialState) | _ \<Rightarrow> runCheck w)"

definition exitCode :: "world \<Rightarrow> nat" where
  "exitCode w = fst (main w)"

definition finalState :: "world \<Rightarrow> state" where
  "finalState w = snd (main w)"

section \<open>Notions of the specification\<close>

text \<open>
  The relative path the resolver derives for an offense: the uri has the \<open>file\<close> scheme,
  its path decodes, and the decoded path starts with the workspace root as the script
  normalises it. A derived path is valid when it is not the sentinel \<open>unknown_path\<close>.
\<close>

definition derivedRelativePath :: "offense \<Rightarrow> string \<Rightarrow> string option" where
  "derivedRelativePath off ws =
     (if startsWith (offenseUri off) ''file://'' then
        (case decodeURIComponent (substring (offenseUri off) 7) of
           None \<Rightarrow> None
         | Some d \<Rightarrow>
             if startsWith d (baseWorkspacePath ws)
             then Some (substring d (length (baseWorkspacePath ws)))
             else None)
      else None)"

definition validRelativePath :: "offense \<Rightarrow> string \<Rightarrow> bool" where
  "validRelativePath off ws =
     (case derivedRelativePath off ws of None \<Rightarrow> False | Some rel \<Rightarrow> rel \<noteq> ''unknown_path'')"

text \<open>A path without its leading separator, when it has one.\<close>

definition stripLeadingSeparator :: "string \<Rightarrow> string" where
  "stripLeadingSeparator p = (case p of [] \<Rightarrow> [] | c # cs \<Rightarrow> if c = CHR ''/'' then cs else p)"

text \<open>
  The workspace root with exactly one trailing separator, as the specification words
  the normalisation: all trailing separators go, one is put back.
\<close>

definition normalizedRoot :: "string \<Rightarrow> string" where
  "normalizedRoot ws = rev (dropWhile (\<lambda>c. c = CHR ''/'') (rev ws)) @ ''/''"

text \<open>
  The failing conditions of the exit code, as the specification lists them. A fatal
  setup or processing error: the engine's package does not load, its entry point is no
  function, the output destination is unset or its directory missing, the engine's call
  raises, or its result has no array of offenses. The counts are those of the offenses
  the engine returned.
\<close>

definition fatalError :: "world \<Rightarrow> bool" where
  "fatalError w =
     (case engine w of
        RequireFails \<Rightarrow> True
      | NotFunction t \<Rightarrow> True
      | Function run \<Rightarrow>
          \<not> outputPathValid w
          \<or> (case run of Raises t \<Rightarrow> True | Resolves Malformed \<Rightarrow> True
              | Resolves (Offenses offs) \<Rightarrow> False))"

definition foundOffenses :: "world \<Rightarrow> offense list" where
  "foundOffenses w =
     (case engine w of Function (Resolves (Offenses offs)) \<Rightarrow> offs | _ \<Rightarrow> [])"

definition failingCondition :: "world \<Rightarrow> bool" where
  "failingCondition w =
     (0 < length (filter (\<lambda>off. severity off = 0) (foundOffenses w))
      \<or> (0 < length (filter (\<lambda>off. severity off = 1) (foundOffenses w))
          \<and> FAIL_ON_WARNINGS w = Some ''true'')
      \<or> fatalError w
      \<or> writeFails w)"

text \<open>
  The variables of \<open>runCheck\<close> when its first guarded statement is left: what the \<open>try\<close>
  block assigned, or the degraded values of the \<open>catch\<close> block, or what stands when
  the \<open>catch\<close> block raised.
\<close>

definition runReport :: "world \<Rightarrow> report" where
  "runReport w =
     (case fst (tryBlock w initialState) of
        Inr r \<Rightarrow> r
      | Inl e \<Rightarrow> (case catchBlock e of Some r \<Rightarrow> r | None \<Rightarrow> interruptedReport))"

text \<open>The \<open>catch\<close> block of the run raises, so the run ends uncaught.\<close>

definition uncaught :: "world \<Rightarrow> bool" where
  "uncaught w =
     (case fst (tryBlock w initialState) of Inr r \<Rightarrow> False | Inl e \<Rightarrow> catchBlock e = None)"

text \<open>
  The run reaches the write of the report file: the engine's package loaded and the
  first guarded statement was left without an uncaught error.
\<close>

definition writeAttempted :: "world \<Rightarrow> bool" where
  "writeAttempted w = (engine w \<noteq> RequireFails \<and> \<not> uncaught w)"


text \<open>The output file takes every append.\<close>

definition outputsWritable :: "world \<Rightarrow> bool" where
  "outputsWritable w = (outputPathValid w \<and> (\<forall>n. \<not> appendFails w n))"

section \<open>Examples\<close>

definition headerOffense :: offense where
  "headerOffense =
     \<lparr>uri = Some ''file:///workspace/sections/header.liquid'',
      start = Some \<lparr>line = Some 12, character = Some 4\<rparr>,
      severity = 0,
      message = Some ''Missing translation'',
      check = Some ''TranslationKeyExists''\<rparr>"

definition exampleWorld :: world where
  "exampleWorld =
     \<lparr>PR_NUMBER = Some ''7'',
      WORKSPACE_PATH = Some ''/workspace'',
      GITHUB_OUTPUT = Some ''/runner/output'',
      REPO_URL = Some ''https://github.com/org/repo'',
      COMMIT_SHA = Some ''abc123'',
      RUN_ID = Some ''99'',
      FAIL_ON_WARNINGS = None,
      RUNNER_TEMP = Some ''/runner/temp'',
      cwd = ''/workspace'',
      scriptDir = ''/action/scripts'',
      engine = Function (Resolves (Offenses
                 [headerOffense, headerOffense\<lparr>severity := 1\<rparr>, headerOffense\<lparr>severity := 2\<rparr>])),
      now = 1700,
      parentDirExists = (\<lambda>p. True),
      appendFails = (\<lambda>n. False),
      writeFails = False\<rparr>"

text \<open>A run that finds one warning and no error.\<close>

definition warningWorld :: world where
  "warningWorld =
     exampleWorld\<lparr>engine := Function (Resolves (Offenses [headerOffense\<lparr>severity := 1\<rparr>]))\<rparr>"


section \<open>Auxiliary facts\<close>

lemma count_list_filter_if:
  "count_list (filter P xs) x = (if P x then count_list xs x else 0)"
  by (induction xs) auto

lemma startsWith_rejoin: "startsWith s p \<Longrightarrow> p @ substring s (length p) = s"
  by (auto simp: startsWith_def substring_def prefix_def)

lemma stripLeadingSeparator_code:
  "(if startsWith p ''/'' then substring p 1 else p) = stripLeadingSeparator p"
  by (cases p) (auto simp: startsWith_def substring_def stripLeadingSeparator_def)

lemma fileLinkOf_cases:
  "fileLinkOf off ws repo sha =
     (case derivedRelativePath off ws of
        None \<Rightarrow> []
      | Some rel \<Rightarrow>
          if repo \<noteq> [] \<and> sha \<noteq> [] \<and> rel \<noteq> ''unknown_path'' \<and> 0 < startRow off
          then repo @ ''/blob/'' @ sha @ ''/'' @ stripLeadingSeparator rel @ ''#L''
                 @ numToString (startRow off)
          else [])"
  unfolding fileLinkOf_def pathAndLink_def derivedRelativePath_def Let_def
    stripLeadingSeparator_code
  by (simp split: option.split)

lemma relativePathOf_derived:
  "derivedRelativePath off ws = Some rel \<Longrightarrow> relativePathOf off ws repo sha = rel"
  unfolding relativePathOf_def pathAndLink_def derivedRelativePath_def Let_def
  by (auto split: option.splits if_splits)

lemma formatOffenseBlock_unfold:
  "formatOffenseBlock off ws repo sha =
     ''- '' @ (if fileLinkOf off ws repo sha \<noteq> []
               then ''['' @ relativePathOf off ws repo sha @ '']('' @ fileLinkOf off ws repo sha @ '')''
               else relativePathOf off ws repo sha)
       @ locationSuffix off @ newline @ ''  '' @ description off"
  unfolding formatOffenseBlock_def fileLinkOf_def relativePathOf_def Let_def
  by (simp add: case_prod_beta)

lemma endsWith_slash: "endsWith s ''/'' = (s \<noteq> [] \<and> last s = CHR ''/'')"
proof (cases "s = []")
  case True
  then show ?thesis by (simp add: endsWith_def)
next
  case False
  then have "s = butlast s @ [last s]" by simp
  then have "drop (length s - 1) s = [last s]"
    by (metis append_eq_conv_conj length_butlast)
  with False show ?thesis by (auto simp: endsWith_def Suc_le_eq)
qed

lemma takeWhile_eq_replicate:
  "takeWhile (\<lambda>c. c = a) xs = replicate (length (takeWhile (\<lambda>c. c = a) xs)) a"
  by (induction xs) auto

lemma normalizedRoot_prefix_base: "prefix (normalizedRoot ws) (baseWorkspacePath ws)"
proof -
  let ?P = "\<lambda>c. c = CHR ''/''"
  let ?r = "rev (dropWhile ?P (rev ws))"
  let ?k = "length (takeWhile ?P (rev ws))"
  have split: "ws = ?r @ replicate ?k (CHR ''/'')"
  proof -
    have "rev ws = takeWhile ?P (rev ws) @ dropWhile ?P (rev ws)" by simp
    then have "ws = ?r @ rev (takeWhile ?P (rev ws))"
      by (metis rev_append rev_rev_ident)
    moreover have "rev (takeWhile ?P (rev ws)) = replicate ?k (CHR ''/'')"
      using takeWhile_eq_replicate [of "CHR ''/''" "rev ws"] by (metis rev_replicate)
    ultimately show ?thesis by simp
  qed
  show ?thesis
  proof (cases "endsWith ws ''/''")
    case True
    then have "ws \<noteq> []" and "last ws = CHR ''/''" by (simp_all add: endsWith_slash)
    then have "takeWhile ?P (rev ws) \<noteq> []"
      by (cases "rev ws") (auto simp: last_rev [symmetric] simp del: last_rev)
    then obtain k where k: "?k = Suc k" by (cases ?k) auto
    have "ws = (?r @ ''/'') @ replicate k (CHR ''/'')"
      using split unfolding k by simp
    then have "prefix (?r @ ''/'') ws" by (metis prefixI)
    with True show ?thesis by (simp add: normalizedRoot_def baseWorkspacePath_def)
  next
    case False
    then have "ws = [] \<or> last ws \<noteq> CHR ''/''" by (auto simp: endsWith_slash)
    then have "takeWhile ?P (rev ws) = []"
      by (cases "rev ws") (auto simp: hd_rev [symmetric] simp del: hd_rev)
    then have "dropWhile ?P (rev ws) = rev ws"
      by (metis append_Nil takeWhile_dropWhile_id)
    with False show ?thesis by (simp add: normalizedRoot_def baseWorkspacePath_def)
  qed
qed

lemma outside_spec_root:
  "\<not> startsWith d (normalizedRoot ws) \<Longrightarrow> \<not> startsWith d (baseWorkspacePath ws)"
  unfolding startsWith_def using normalizedRoot_prefix_base [of ws]
  by (meson prefix_order.trans)

lemma setOutput_writable:
  "outputsWritable w \<Longrightarrow>
     setOutput w name v s
       = s\<lparr>outputFile := outputFile s @ [outputLine name v], appendCalls := Suc (appendCalls s)\<rparr>"
  by (auto simp: outputsWritable_def outputPathValid_def setOutput_def split: option.splits)

lemma setOutput_invalid:
  "\<not> outputPathValid w \<Longrightarrow> outputFile (setOutput w name v s) = outputFile s"
  by (auto simp: outputPathValid_def setOutput_def split: option.splits)

lemma setOutput_keeps [simp]:
  "engineCalls (setOutput w name v s) = engineCalls s"
  "reportFile (setOutput w name v s) = reportFile s"
  by (auto simp: setOutput_def split: option.splits)

lemma setOutput_either:
  "outputFile (setOutput w name v s) = outputFile s
   \<or> outputFile (setOutput w name v s) = outputFile s @ [outputLine name v]"
  by (auto simp: setOutput_def split: option.splits)

lemma publish_exit: "fst (publish w r s) = (if jobShouldFail r \<or> writeFails w then 1 else 0)"
  by (simp add: publish_def writeCommentBodyToFile_def)

lemma publish_engineCalls: "engineCalls (snd (publish w r s)) = engineCalls s"
  by (simp add: publish_def writeCommentBodyToFile_def)

lemma publish_reportFile:
  "\<not> writeFails w \<Longrightarrow> reportFile (snd (publish w r s)) = Some (bodyFile w, finalCommentBody w r)"
  by (simp add: publish_def writeCommentBodyToFile_def)

lemma publish_outputs_written:
  "outputsWritable w \<Longrightarrow> \<not> writeFails w \<Longrightarrow>
     outputFile (snd (publish w r s))
       = outputFile s
           @ [outputLine ''comment_body_file'' (bodyFile w),
              outputLine ''fallback_comment_body'' [],
              outputLine ''error_count'' (digits (errorTotal r)),
              outputLine ''warning_count'' (digits (warningTotal r))]"
  by (simp add: publish_def writeCommentBodyToFile_def setOutput_writable)

lemma publish_outputs_fallback:
  "outputsWritable w \<Longrightarrow> writeFails w \<Longrightarrow>
     outputFile (snd (publish w r s))
       = outputFile s
           @ [outputLine ''comment_body_file'' [],
              outputLine ''fallback_comment_body'' (fallbackBody w r)]"
  by (simp add: publish_def writeCommentBodyToFile_def setOutput_writable)

lemma publish_outputs_invalid:
  "\<not> outputPathValid w \<Longrightarrow> outputFile (snd (publish w r s)) = outputFile s"
  by (simp add: publish_def writeCommentBodyToFile_def setOutput_invalid)

lemma publish_outputs_fallback_only:
  assumes "writeFails w"
  shows "set (outputFile (snd (publish w r s)))
           \<subseteq> set (outputFile s)
               \<union> {outputLine ''comment_body_file'' [],
                  outputLine ''fallback_comment_body'' (fallbackBody w r)}"
proof -
  let ?s1 = "setOutput w ''comment_body_file'' [] s"
  have "set (outputFile ?s1) \<subseteq> set (outputFile s) \<union> {outputLine ''comment_body_file'' []}"
    using setOutput_either [of w "''comment_body_file''" "[]" s] by auto
  moreover have "set (outputFile (setOutput w ''fallback_comment_body'' (fallbackBody w r) ?s1))
        \<subseteq> set (outputFile ?s1) \<union> {outputLine ''fallback_comment_body'' (fallbackBody w r)}"
    using setOutput_either [of w "''fallback_comment_body''" "fallbackBody w r" ?s1] by auto
  ultimately show ?thesis
    using assms by (auto simp: publish_def writeCommentBodyToFile_def)
qed

lemma tryBlock_keeps [simp]:
  "outputFile (snd (tryBlock w s)) = outputFile s"
  "reportFile (snd (tryBlock w s)) = reportFile s"
  by (auto simp: tryBlock_def Let_def split: themeCheck.splits engineRun.splits results.splits)

lemma tryBlock_engineCalls:
  "engineCalls (snd (tryBlock w s))
     = (case engine w of
          Function run \<Rightarrow> if outputPathValid w then Suc (engineCalls s) else engineCalls s
        | _ \<Rightarrow> engineCalls s)"
  by (auto simp: tryBlock_def Let_def split: themeCheck.splits engineRun.splits results.splits)

lemma catchBlock_newError: "msg \<noteq> [] \<Longrightarrow> catchBlock (newError msg) = Some (failedReport msg)"
  by (simp add: catchBlock_def errorText_def newError_def orElse_def)

lemma catchBlock_None: "(catchBlock e = None) = (e = Nullish)"
  by (simp add: catchBlock_def errorText_def split: thrown.split)

lemma uncaught_iff: "uncaught w = (outputPathValid w \<and> engine w = Function (Raises Nullish))"
  by (auto simp: uncaught_def tryBlock_def Let_def catchBlock_None newError_def
      split: themeCheck.splits engineRun.splits results.splits)

lemma runCheck_publish:
  "\<not> uncaught w \<Longrightarrow> runCheck w = publish w (runReport w) (snd (tryBlock w initialState))"
  by (cases "tryBlock w initialState"; cases "fst (tryBlock w initialState)")
     (auto simp: runCheck_def runReport_def uncaught_def)

lemma runCheck_uncaught:
  "uncaught w \<Longrightarrow> runCheck w = (1, snd (tryBlock w initialState))"
  by (cases "tryBlock w initialState"; cases "fst (tryBlock w initialState)")
     (auto simp: runCheck_def uncaught_def)

lemma resolves_caught: "engine w = Function (Resolves r) \<Longrightarrow> \<not> uncaught w"
  by (simp add: uncaught_iff)

lemma invalid_caught: "\<not> outputPathValid w \<Longrightarrow> \<not> uncaught w"
  by (simp add: uncaught_iff)


lemma main_Function: "engine w = Function run \<Longrightarrow> main w = runCheck w"
  by (simp add: main_def)

lemma runReport_offenses:
  "outputPathValid w \<Longrightarrow> engine w = Function (Resolves (Offenses offs)) \<Longrightarrow>
     runReport w = checkedReport w offs"
  by (simp add: runReport_def tryBlock_def)


lemma runReport_invalid:
  "\<not> outputPathValid w \<Longrightarrow>
     runReport w = failedReport (''GITHUB_OUTPUT path invalid or directory does not exist: ''
                                  @ outputFilePathText w)"
  by (simp add: runReport_def tryBlock_def catchBlock_newError)

lemma jobShouldFail_runReport:
  "engine w \<noteq> RequireFails \<Longrightarrow> \<not> uncaught w \<Longrightarrow>
   jobShouldFail (runReport w)
     = (0 < length (filter (\<lambda>off. severity off = 0) (foundOffenses w))
        \<or> (0 < length (filter (\<lambda>off. severity off = 1) (foundOffenses w))
            \<and> FAIL_ON_WARNINGS w = Some ''true'')
        \<or> fatalError w)"
  by (auto simp: runReport_def tryBlock_def fatalError_def foundOffenses_def Let_def
      checkedReport_def failedReport_def totalErrorCount_def totalWarningCount_def
      errorOffenses_def warningOffenses_def failOnWarnings_def uncaught_iff
      catchBlock_def errorText_def newError_def
      split: themeCheck.splits engineRun.splits results.splits thrown.splits)

lemma exitCode_failing: "exitCode w = (if failingCondition w then 1 else 0)"
proof (cases "engine w = RequireFails")
  case True
  then show ?thesis
    by (simp add: exitCode_def main_def failingCondition_def fatalError_def)
next
  case False
  then have m: "main w = runCheck w" by (cases "engine w") (simp_all add: main_def)
  show ?thesis
  proof (cases "uncaught w")
    case True
    then have "fatalError w" by (simp add: uncaught_iff fatalError_def)
    then show ?thesis
      using True by (simp add: exitCode_def m runCheck_uncaught failingCondition_def)
  next
    case caught: False
    then have "exitCode w = (if jobShouldFail (runReport w) \<or> writeFails w then 1 else 0)"
      by (simp add: exitCode_def m runCheck_publish publish_exit)
    then show ?thesis
      unfolding jobShouldFail_runReport [OF False caught] failingCondition_def by auto
  qed
qed




lemma fallbackBody_nonempty: "fallbackBody w r \<noteq> []"
  by (simp add: fallbackBody_def reportTitle_def)

lemma exampleWorld_valid: "outputPathValid exampleWorld"
  by (simp add: outputPathValid_def outputFilePath_def exampleWorld_def)

lemma exampleWorld_writable: "outputsWritable exampleWorld"
  by (simp add: outputsWritable_def exampleWorld_valid) (simp add: exampleWorld_def)

lemma normalizedRoot_eq_base:
  assumes "\<not> endsWith ws ''//''"
  shows "normalizedRoot ws = baseWorkspacePath ws"
proof (cases "endsWith ws ''/''")
  case False
  then have "ws = [] \<or> last ws \<noteq> CHR ''/''" by (auto simp: endsWith_slash)
  then have "dropWhile (\<lambda>c. c = CHR ''/'') (rev ws) = rev ws"
    by (cases "rev ws") (auto simp: hd_rev [symmetric] simp del: hd_rev)
  with False show ?thesis by (simp add: normalizedRoot_def baseWorkspacePath_def)
next
  case True
  then have ne: "ws \<noteq> []" and l: "last ws = CHR ''/''" by (simp_all add: endsWith_slash)
  then obtain r where ws: "ws = r @ ''/''" by (metis append_butlast_last_id)
  have "r = [] \<or> last r \<noteq> CHR ''/''"
  proof (rule ccontr)
    assume "\<not> (r = [] \<or> last r \<noteq> CHR ''/'')"
    then obtain q where "r = q @ ''/''" by (metis append_butlast_last_id)
    then have "ws = q @ ''//''" using ws by simp
    then have "endsWith ws ''//''" by (simp add: endsWith_def)
    with assms show False by simp
  qed
  then have "dropWhile (\<lambda>c. c = CHR ''/'') (rev r) = rev r"
    by (cases "rev r") (auto simp: hd_rev [symmetric] simp del: hd_rev)
  then have "normalizedRoot ws = r @ ''/''"
    by (simp add: normalizedRoot_def ws)
  with True ws show ?thesis by (simp add: baseWorkspacePath_def)
qed

lemma flag_setOutput [simp]:
  "setOutput (w\<lparr>FAIL_ON_WARNINGS := x\<rparr>) name v s = setOutput w name v s"
  by (simp add: setOutput_def outputFilePath_def split: option.split)

lemma flag_bodyFile [simp]: "bodyFile (w\<lparr>FAIL_ON_WARNINGS := x\<rparr>) = bodyFile w"
  by (simp add: bodyFile_def)

lemma flag_finalCommentBody [simp]:
  "finalCommentBody (w\<lparr>FAIL_ON_WARNINGS := x\<rparr>) r = finalCommentBody w r"
  by (simp add: finalCommentBody_def reportTitle_def prNumber_def viewMoreLink_def
      actionRunUrl_def repoUrl_def runId_def)

lemma flag_offensesBody [simp]:
  "offensesBody (w\<lparr>FAIL_ON_WARNINGS := x\<rparr>) offs = offensesBody w offs"
  by (simp add: offensesBody_def formatted_def workspacePath_def themePath_def repoUrl_def
      commitSha_def)

lemma flag_outputPathValid [simp]:
  "outputPathValid (w\<lparr>FAIL_ON_WARNINGS := x\<rparr>) = outputPathValid w"
  by (simp add: outputPathValid_def outputFilePath_def split: option.split)

lemma flag_checkedReport_body [simp]:
  "finalCommentBody w (checkedReport (w\<lparr>FAIL_ON_WARNINGS := x\<rparr>) offs)
     = finalCommentBody w (checkedReport w offs)"
  by (simp add: finalCommentBody_def checkedReport_def)

lemma warnings_only_run:
  assumes e: "engine w = Function (Resolves (Offenses offs))"
    and v: "outputPathValid w" and nw: "\<not> writeFails w"
    and zero: "totalErrorCount offs = 0" and some: "0 < totalWarningCount offs"
  shows "exitCode (w\<lparr>FAIL_ON_WARNINGS := x\<rparr>) = (if x = Some ''true'' then 1 else 0)"
    and "reportFile (finalState (w\<lparr>FAIL_ON_WARNINGS := x\<rparr>))
           = Some (bodyFile w, finalCommentBody w (checkedReport w offs))"
proof -
  let ?w = "w\<lparr>FAIL_ON_WARNINGS := x\<rparr>"
  have e': "engine ?w = Function (Resolves (Offenses offs))" using e by simp
  have v': "outputPathValid ?w" using v by simp
  have rep: "runReport ?w = checkedReport ?w offs"
    using v' e' by (rule runReport_offenses)
  have m: "main ?w = publish ?w (runReport ?w) (snd (tryBlock ?w initialState))"
    using e' resolves_caught [OF e'] by (simp add: main_Function runCheck_publish)
  show "exitCode ?w = (if x = Some ''true'' then 1 else 0)"
    using nw zero some
    by (simp add: exitCode_def m publish_exit rep checkedReport_def failOnWarnings_def)
  have "reportFile (finalState ?w) = Some (bodyFile ?w, finalCommentBody ?w (checkedReport ?w offs))"
    using nw by (simp add: finalState_def m publish_reportFile rep)
  then show "reportFile (finalState ?w)
           = Some (bodyFile w, finalCommentBody w (checkedReport w offs))"
    by simp
qed

lemma warningWorld_engine:
  "engine warningWorld = Function (Resolves (Offenses [headerOffense\<lparr>severity := 1\<rparr>]))"
  by (simp add: warningWorld_def)

lemma warningWorld_valid: "outputPathValid warningWorld"
  by (simp add: outputPathValid_def outputFilePath_def warningWorld_def exampleWorld_def)

lemma main_runs: "engine w \<noteq> RequireFails \<Longrightarrow> main w = runCheck w"
  by (cases "engine w") (simp_all add: main_def)

lemma initialState_fields [simp]:
  "outputFile initialState = []"
  "reportFile initialState = None"
  "engineCalls initialState = 0"
  by (simp_all add: initialState_def)

lemma outputPathValid_cases:
  "(\<not> outputPathValid w)
     = (GITHUB_OUTPUT w = None \<or> (\<exists>p. GITHUB_OUTPUT w = Some p \<and> (p = [] \<or> \<not> parentDirExists w p)))"
  by (auto simp: outputPathValid_def outputFilePath_def split: option.splits)

lemma exampleWorld_fields:
  "engine (exampleWorld\<lparr>writeFails := True\<rparr>) \<noteq> RequireFails"
  "writeFails (exampleWorld\<lparr>writeFails := True\<rparr>)"
  "outputsWritable (exampleWorld\<lparr>writeFails := True\<rparr>)"
  "writeAttempted (exampleWorld\<lparr>writeFails := True\<rparr>)"
  using exampleWorld_writable
  by (simp_all add: exampleWorld_def outputsWritable_def outputPathValid_def outputFilePath_def
      writeAttempted_def uncaught_iff)

lemma writeAttempted_iff:
  "writeAttempted w
     = (engine w \<noteq> RequireFails \<and> \<not> (outputPathValid w \<and> engine w = Function (Raises Nullish)))"
  by (simp add: writeAttempted_def uncaught_iff)

lemma main_attempted:
  "writeAttempted w \<Longrightarrow> main w = publish w (runReport w) (snd (tryBlock w initialState))"
  by (simp add: writeAttempted_def main_runs runCheck_publish)

lemma setOutput_refused:
  "\<not> outputPathValid w \<or> (\<forall>n. appendFails w n) \<Longrightarrow>
     outputFile (setOutput w name v s) = outputFile s"
  by (auto simp: outputPathValid_def setOutput_def split: option.splits)

lemma publish_outputs_refused:
  "\<not> outputPathValid w \<or> (\<forall>n. appendFails w n) \<Longrightarrow>
     outputFile (snd (publish w r s)) = outputFile s"
  by (simp add: publish_def writeCommentBodyToFile_def setOutput_refused split: option.split)

lemma publish_outputs_fallback_subseq:
  assumes "writeFails w"
  shows "subseq (outputFile (snd (publish w r s)))
           (outputFile s @ [outputLine ''comment_body_file'' [],
                            outputLine ''fallback_comment_body'' (fallbackBody w r)])"
proof -
  let ?a = "outputLine ''comment_body_file'' []"
  let ?b = "outputLine ''fallback_comment_body'' (fallbackBody w r)"
  let ?s1 = "setOutput w ''comment_body_file'' [] s"
  let ?s2 = "setOutput w ''fallback_comment_body'' (fallbackBody w r) ?s1"
  have 1: "outputFile ?s1 = outputFile s \<or> outputFile ?s1 = outputFile s @ [?a]"
    by (rule setOutput_either)
  have 2: "outputFile ?s2 = outputFile ?s1 \<or> outputFile ?s2 = outputFile ?s1 @ [?b]"
    by (rule setOutput_either)
  have "subseq [] [?a, ?b]" "subseq [?a] [?a, ?b]" "subseq [?b] [?a, ?b]" "subseq [?a, ?b] [?a, ?b]"
    by simp_all
  then have "subseq (outputFile ?s2) (outputFile s @ [?a, ?b])"
    using 1 2 by (auto simp del: subseq_Cons2_iff intro: list_emb_append_mono)
  then show ?thesis
    using assms by (simp add: publish_def writeCommentBodyToFile_def)
qed


lemma exampleWorld_fallback_line:
  "outputLine ''fallback_comment_body''
     (fallbackBody (exampleWorld\<lparr>writeFails := True\<rparr>)
        (runReport (exampleWorld\<lparr>writeFails := True\<rparr>)))
   = ''fallback_comment_body=## Theme Check Report for PR #7%0A''
       @ ''**1 error(s), 1 warning(s) found.**%0A%0A'' @ warningMark
       @ '' Error: Could not write report file.%0A%0A''
       @ ''[View Full Action Run Details](https://github.com/org/repo/actions/runs/99)''
       @ newline"
  by code_simp


lemma plain_output_lines:
  "outputLine ''comment_body_file'' [] = ''comment_body_file='' @ newline"
  "outputLine ''fallback_comment_body'' [] = ''fallback_comment_body='' @ newline"
  "outputLine ''error_count'' ''0'' = ''error_count=0'' @ newline"
  "outputLine ''warning_count'' ''0'' = ''warning_count=0'' @ newline"
  by code_simp+

section \<open>The claims\<close>

text \<open>
  Claim C1. For every list of offenses the engine returns, the errors are a subsequence
  of the list that holds each offense of severity 0 as often as the list does and no
  other offense, and the warnings likewise for severity 1, so the order within a class
  is the list's; no offense is in both; an offense of another severity is in neither
  and in neither count; the counts are the lengths of the two subsequences, and a run
  that publishes reports them as \<open>error_count\<close> and \<open>warning_count\<close> and in
  its summary line.
\<close>

theorem classifier_partition:
  "subseq (errorOffenses offs) offs
   \<and> subseq (warningOffenses offs) offs
   \<and> (\<forall>off. count_list (errorOffenses offs) off
               = (if severity off = 0 then count_list offs off else 0))
   \<and> (\<forall>off. count_list (warningOffenses offs) off
               = (if severity off = 1 then count_list offs off else 0))
   \<and> set (errorOffenses offs) \<inter> set (warningOffenses offs) = {}
   \<and> totalErrorCount offs = length (errorOffenses offs)
   \<and> totalWarningCount offs = length (warningOffenses offs)
   \<and> totalErrorCount offs + totalWarningCount offs
       + length (filter (\<lambda>off. severity off \<noteq> 0 \<and> severity off \<noteq> 1) offs) = length offs
   \<and> (engine w = Function (Resolves (Offenses offs)) \<and> outputsWritable w \<and> \<not> writeFails w
        \<longrightarrow> outputFile (finalState w)
              = [outputLine ''comment_body_file'' (bodyFile w),
                 outputLine ''fallback_comment_body'' [],
                 outputLine ''error_count'' (digits (length (errorOffenses offs))),
                 outputLine ''warning_count'' (digits (length (warningOffenses offs)))]
            \<and> summaryLine (runReport w)
                = digits (length (errorOffenses offs)) @ '' error(s), ''
                    @ digits (length (warningOffenses offs)) @ '' warning(s) found.'')"
proof (intro conjI allI impI)
  show "subseq (errorOffenses offs) offs" by (simp add: errorOffenses_def)
  show "subseq (warningOffenses offs) offs" by (simp add: warningOffenses_def)
  show "count_list (errorOffenses offs) off
          = (if severity off = 0 then count_list offs off else 0)" for off
    by (simp add: errorOffenses_def count_list_filter_if)
  show "count_list (warningOffenses offs) off
          = (if severity off = 1 then count_list offs off else 0)" for off
    by (simp add: warningOffenses_def count_list_filter_if)
  show "set (errorOffenses offs) \<inter> set (warningOffenses offs) = {}"
    by (auto simp: errorOffenses_def warningOffenses_def)
  show "totalErrorCount offs = length (errorOffenses offs)" by (simp add: totalErrorCount_def)
  show "totalWarningCount offs = length (warningOffenses offs)"
    by (simp add: totalWarningCount_def)
  show "totalErrorCount offs + totalWarningCount offs
       + length (filter (\<lambda>off. severity off \<noteq> 0 \<and> severity off \<noteq> 1) offs) = length offs"
    unfolding totalErrorCount_def totalWarningCount_def errorOffenses_def warningOffenses_def
    by (induction offs) auto
next
  assume run: "engine w = Function (Resolves (Offenses offs)) \<and> outputsWritable w \<and> \<not> writeFails w"
  then have valid: "outputPathValid w" by (simp add: outputsWritable_def)
  have rep: "runReport w = checkedReport w offs"
    using run valid by (simp add: runReport_offenses)
  have "finalState w = snd (publish w (runReport w) (snd (tryBlock w initialState)))"
    using run resolves_caught [of w "Offenses offs"]
    by (simp add: finalState_def main_Function runCheck_publish)
  then show "outputFile (finalState w)
              = [outputLine ''comment_body_file'' (bodyFile w),
                 outputLine ''fallback_comment_body'' [],
                 outputLine ''error_count'' (digits (length (errorOffenses offs))),
                 outputLine ''warning_count'' (digits (length (warningOffenses offs)))]"
    using run
    by (simp add: publish_outputs_written rep checkedReport_def initialState_def
        totalErrorCount_def totalWarningCount_def)
  show "summaryLine (runReport w)
                = digits (length (errorOffenses offs)) @ '' error(s), ''
                    @ digits (length (warningOffenses offs)) @ '' warning(s) found.''"
    by (simp add: rep checkedReport_def countsSummary_def totalErrorCount_def
        totalWarningCount_def)
qed

theorem classifier_partition_witness:
  "engine exampleWorld
     = Function (Resolves (Offenses
         [headerOffense, headerOffense\<lparr>severity := 1\<rparr>, headerOffense\<lparr>severity := 2\<rparr>]))
   \<and> outputsWritable exampleWorld
   \<and> \<not> writeFails exampleWorld
   \<and> errorOffenses
        [headerOffense, headerOffense\<lparr>severity := 1\<rparr>, headerOffense\<lparr>severity := 2\<rparr>]
       = [headerOffense]
   \<and> warningOffenses
        [headerOffense, headerOffense\<lparr>severity := 1\<rparr>, headerOffense\<lparr>severity := 2\<rparr>]
       = [headerOffense\<lparr>severity := 1\<rparr>]
   \<and> outputFile (finalState exampleWorld)
       = [outputLine ''comment_body_file'' (bodyFile exampleWorld),
          outputLine ''fallback_comment_body'' [],
          outputLine ''error_count'' ''1'',
          outputLine ''warning_count'' ''1'']"
proof -
  let ?offs = "[headerOffense, headerOffense\<lparr>severity := 1\<rparr>, headerOffense\<lparr>severity := 2\<rparr>]"
  have e: "engine exampleWorld = Function (Resolves (Offenses ?offs))"
    by (simp add: exampleWorld_def)
  have nw: "\<not> writeFails exampleWorld" by (simp add: exampleWorld_def)
  have es: "errorOffenses ?offs = [headerOffense]"
    by (simp add: errorOffenses_def headerOffense_def)
  have ws: "warningOffenses ?offs = [headerOffense\<lparr>severity := 1\<rparr>]"
    by (simp add: warningOffenses_def headerOffense_def)
  have one: "digits (Suc 0) = ''1''" by (simp add: digits.simps)
  have "outputFile (finalState exampleWorld)
       = [outputLine ''comment_body_file'' (bodyFile exampleWorld),
          outputLine ''fallback_comment_body'' [],
          outputLine ''error_count'' (digits (length (errorOffenses ?offs))),
          outputLine ''warning_count'' (digits (length (warningOffenses ?offs)))]"
    using classifier_partition [of ?offs exampleWorld] e exampleWorld_writable nw by blast
  then have "outputFile (finalState exampleWorld)
       = [outputLine ''comment_body_file'' (bodyFile exampleWorld),
          outputLine ''fallback_comment_body'' [],
          outputLine ''error_count'' ''1'',
          outputLine ''warning_count'' ''1'']"
    unfolding es ws by (simp add: one)
  then show ?thesis using e exampleWorld_writable nw es ws by blast
qed

text \<open>
  Claim C2. The process exits with 0 exactly when no failing condition holds and with 1
  otherwise, the failing conditions being: an error was found; a warning was found and
  \<open>FAIL_ON_WARNINGS\<close> is the literal \<open>true\<close>; a fatal setup or processing error; the
  report file could not be written. In particular a run that finds no error and at
  least one warning exits with 0 when \<open>FAIL_ON_WARNINGS\<close> is unset and with 1 when it is
  \<open>true\<close>, and writes the same report file in both cases.
\<close>

theorem exit_code_decision:
  "exitCode w = (if failingCondition w then 1 else 0)
   \<and> (engine w = Function (Resolves (Offenses offs)) \<and> outputPathValid w \<and> \<not> writeFails w
        \<and> totalErrorCount offs = 0 \<and> 0 < totalWarningCount offs
      \<longrightarrow> exitCode (w\<lparr>FAIL_ON_WARNINGS := None\<rparr>) = 0
          \<and> exitCode (w\<lparr>FAIL_ON_WARNINGS := Some ''true''\<rparr>) = 1
          \<and> reportFile (finalState (w\<lparr>FAIL_ON_WARNINGS := None\<rparr>))
              = Some (bodyFile w, finalCommentBody w (checkedReport w offs))
          \<and> reportFile (finalState (w\<lparr>FAIL_ON_WARNINGS := Some ''true''\<rparr>))
              = reportFile (finalState (w\<lparr>FAIL_ON_WARNINGS := None\<rparr>)))"
proof (intro conjI impI)
  show "exitCode w = (if failingCondition w then 1 else 0)" by (rule exitCode_failing)
next
  assume a: "engine w = Function (Resolves (Offenses offs)) \<and> outputPathValid w \<and> \<not> writeFails w
        \<and> totalErrorCount offs = 0 \<and> 0 < totalWarningCount offs"
  then have e: "engine w = Function (Resolves (Offenses offs))" and v: "outputPathValid w"
    and nw: "\<not> writeFails w" and z: "totalErrorCount offs = 0" and s: "0 < totalWarningCount offs"
    by simp_all
  show "exitCode (w\<lparr>FAIL_ON_WARNINGS := None\<rparr>) = 0"
    using warnings_only_run(1) [OF e v nw z s, of None] by simp
  show "exitCode (w\<lparr>FAIL_ON_WARNINGS := Some ''true''\<rparr>) = 1"
    using warnings_only_run(1) [OF e v nw z s, of "Some ''true''"] by simp
  show "reportFile (finalState (w\<lparr>FAIL_ON_WARNINGS := None\<rparr>))
              = Some (bodyFile w, finalCommentBody w (checkedReport w offs))"
    using warnings_only_run(2) [OF e v nw z s, of None] .
  show "reportFile (finalState (w\<lparr>FAIL_ON_WARNINGS := Some ''true''\<rparr>))
              = reportFile (finalState (w\<lparr>FAIL_ON_WARNINGS := None\<rparr>))"
    using warnings_only_run(2) [OF e v nw z s] by simp
qed

theorem exit_code_decision_witness:
  "engine warningWorld = Function (Resolves (Offenses [headerOffense\<lparr>severity := 1\<rparr>]))
   \<and> outputPathValid warningWorld
   \<and> \<not> writeFails warningWorld
   \<and> totalErrorCount [headerOffense\<lparr>severity := 1\<rparr>] = 0
   \<and> 0 < totalWarningCount [headerOffense\<lparr>severity := 1\<rparr>]
   \<and> \<not> failingCondition warningWorld
   \<and> exitCode warningWorld = 0
   \<and> exitCode (warningWorld\<lparr>FAIL_ON_WARNINGS := None\<rparr>) = 0
   \<and> exitCode (warningWorld\<lparr>FAIL_ON_WARNINGS := Some ''true''\<rparr>) = 1
   \<and> reportFile (finalState (warningWorld\<lparr>FAIL_ON_WARNINGS := Some ''true''\<rparr>))
       = reportFile (finalState (warningWorld\<lparr>FAIL_ON_WARNINGS := None\<rparr>))
   \<and> failingCondition exampleWorld
   \<and> exitCode exampleWorld = 1"
proof -
  let ?offs = "[headerOffense\<lparr>severity := 1\<rparr>]"
  have nw: "\<not> writeFails warningWorld" by (simp add: warningWorld_def exampleWorld_def)
  have z: "totalErrorCount ?offs = 0"
    by (simp add: totalErrorCount_def errorOffenses_def)
  have s: "0 < totalWarningCount ?offs"
    by (simp add: totalWarningCount_def warningOffenses_def)
  have nf: "\<not> failingCondition warningWorld"
    by (simp add: failingCondition_def fatalError_def foundOffenses_def warningWorld_engine
        warningWorld_valid nw) (simp add: warningWorld_def exampleWorld_def)
  have f: "failingCondition exampleWorld"
    by (simp add: failingCondition_def foundOffenses_def exampleWorld_def headerOffense_def)
  note a = exit_code_decision [of warningWorld ?offs]
  note b = exit_code_decision [of exampleWorld "[]"]
  have c0: "exitCode warningWorld = 0" using a nf by simp
  have c1: "exitCode exampleWorld = 1" using b f by simp
  show ?thesis
    using a warningWorld_engine warningWorld_valid nw z s nf f c0 c1 by blast
qed

text \<open>
  Claim C3. A link is produced exactly when a repository URL and a commit identifier
  are configured, a valid relative path was derived (not the sentinel) and the starting
  line is greater than zero. The link is then the repository URL, \<open>/blob/\<close>, the commit
  identifier, \<open>/\<close>, the relative path without its leading separator, \<open>#L\<close> and the
  starting line, and the Markdown line shows the relative path as the text of that link;
  with no link it shows the path alone. For the offense at
  \<open>file:///workspace/sections/header.liquid\<close>, line 12, in the workspace \<open>/workspace\<close>
  the link is as the specification gives it.
\<close>

theorem link_iff_all_conditions:
  "(fileLinkOf off ws repo sha \<noteq> [])
     = (repo \<noteq> [] \<and> sha \<noteq> [] \<and> validRelativePath off ws \<and> 0 < startRow off)
   \<and> (fileLinkOf off ws repo sha \<noteq> [] \<longrightarrow>
        derivedRelativePath off ws = Some (relativePathOf off ws repo sha)
        \<and> fileLinkOf off ws repo sha
            = repo @ ''/blob/'' @ sha @ ''/''
                @ stripLeadingSeparator (relativePathOf off ws repo sha)
                @ ''#L'' @ numToString (startRow off)
        \<and> formatOffenseBlock off ws repo sha
            = ''- ['' @ relativePathOf off ws repo sha @ '']('' @ fileLinkOf off ws repo sha @ '')''
                @ locationSuffix off @ newline @ ''  '' @ description off)
   \<and> (fileLinkOf off ws repo sha = [] \<longrightarrow>
        formatOffenseBlock off ws repo sha
          = ''- '' @ relativePathOf off ws repo sha
              @ locationSuffix off @ newline @ ''  '' @ description off)
   \<and> fileLinkOf headerOffense ''/workspace'' ''https://github.com/org/repo'' ''abc123''
       = ''https://github.com/org/repo/blob/abc123/sections/header.liquid#L12''"
proof (intro conjI impI)
  show "(fileLinkOf off ws repo sha \<noteq> [])
     = (repo \<noteq> [] \<and> sha \<noteq> [] \<and> validRelativePath off ws \<and> 0 < startRow off)"
    by (auto simp: fileLinkOf_cases validRelativePath_def split: option.splits)
next
  assume link: "fileLinkOf off ws repo sha \<noteq> []"
  then obtain rel where rel: "derivedRelativePath off ws = Some rel"
    by (auto simp: fileLinkOf_cases split: option.splits)
  then have same: "relativePathOf off ws repo sha = rel"
    by (rule relativePathOf_derived)
  show "derivedRelativePath off ws = Some (relativePathOf off ws repo sha)"
    using rel same by simp
  show "fileLinkOf off ws repo sha
            = repo @ ''/blob/'' @ sha @ ''/''
                @ stripLeadingSeparator (relativePathOf off ws repo sha)
                @ ''#L'' @ numToString (startRow off)"
    using link rel same by (auto simp: fileLinkOf_cases split: if_splits)
  show "formatOffenseBlock off ws repo sha
            = ''- ['' @ relativePathOf off ws repo sha @ '']('' @ fileLinkOf off ws repo sha @ '')''
                @ locationSuffix off @ newline @ ''  '' @ description off"
    using link by (simp add: formatOffenseBlock_unfold)
next
  assume "fileLinkOf off ws repo sha = []"
  then show "formatOffenseBlock off ws repo sha
          = ''- '' @ relativePathOf off ws repo sha
              @ locationSuffix off @ newline @ ''  '' @ description off"
    by (simp add: formatOffenseBlock_unfold)
next
  show "fileLinkOf headerOffense ''/workspace'' ''https://github.com/org/repo'' ''abc123''
       = ''https://github.com/org/repo/blob/abc123/sections/header.liquid#L12''"
    by code_simp
qed

theorem link_iff_all_conditions_witness:
  "validRelativePath headerOffense ''/workspace''
   \<and> 0 < startRow headerOffense
   \<and> fileLinkOf headerOffense ''/workspace'' ''https://github.com/org/repo'' ''abc123'' \<noteq> []
   \<and> relativePathOf headerOffense ''/workspace'' ''https://github.com/org/repo'' ''abc123''
       = ''sections/header.liquid''
   \<and> formatOffenseBlock headerOffense ''/workspace'' ''https://github.com/org/repo'' ''abc123''
       = ''- [sections/header.liquid](https://github.com/org/repo/blob/abc123/sections/header.liquid#L12):`12:4`''
           @ newline @ ''  Missing translation (TranslationKeyExists)''
   \<and> fileLinkOf (headerOffense\<lparr>start := Some \<lparr>line = Some 0, character = Some 4\<rparr>\<rparr>)
         ''/workspace'' ''https://github.com/org/repo'' ''abc123'' = []"
proof -
  let ?repo = "''https://github.com/org/repo''"
  let ?zero = "headerOffense\<lparr>start := Some \<lparr>line = Some 0, character = Some 4\<rparr>\<rparr>"
  have v: "validRelativePath headerOffense ''/workspace''" by code_simp
  have r: "0 < startRow headerOffense" by code_simp
  have rel: "relativePathOf headerOffense ''/workspace'' ?repo ''abc123'' = ''sections/header.liquid''"
    by code_simp
  have loc: "locationSuffix headerOffense = '':`12:4`''" by code_simp
  have des: "description headerOffense = ''Missing translation (TranslationKeyExists)''"
    by code_simp
  have z: "\<not> 0 < startRow ?zero" by code_simp
  note main = link_iff_all_conditions [of headerOffense "''/workspace''" ?repo "''abc123''"]
  have link: "fileLinkOf headerOffense ''/workspace'' ?repo ''abc123'' \<noteq> []"
    using main v r by simp
  have lk: "fileLinkOf headerOffense ''/workspace'' ?repo ''abc123''
       = ''https://github.com/org/repo/blob/abc123/sections/header.liquid#L12''"
    using main by blast
  have "formatOffenseBlock headerOffense ''/workspace'' ?repo ''abc123''
       = ''- ['' @ relativePathOf headerOffense ''/workspace'' ?repo ''abc123'' @ '']('' 
           @ fileLinkOf headerOffense ''/workspace'' ?repo ''abc123'' @ '')''
           @ locationSuffix headerOffense @ newline @ ''  '' @ description headerOffense"
    using main link by blast
  then have block: "formatOffenseBlock headerOffense ''/workspace'' ?repo ''abc123''
       = ''- [sections/header.liquid](https://github.com/org/repo/blob/abc123/sections/header.liquid#L12):`12:4`''
           @ newline @ ''  Missing translation (TranslationKeyExists)''"
    by (simp add: lk rel loc des)
  have none: "fileLinkOf ?zero ''/workspace'' ?repo ''abc123'' = []"
    using link_iff_all_conditions [of ?zero "''/workspace''" ?repo "''abc123''"] z by blast
  show ?thesis using v r link rel block none by blast
qed

text \<open>
  Claim C4, as stated, fails when the output file does not take the appends. The write
  of the report file is attempted and fails, the run exits with 1, but \<open>setOutput\<close>
  skips an unset output file and swallows a failed append, so neither the empty
  \<open>comment_body_file\<close> nor the fallback body is emitted.
\<close>

theorem write_failure_emits_counterexample:
  "writeFails (exampleWorld\<lparr>writeFails := True, appendFails := (\<lambda>n. True)\<rparr>)
   \<and> writeAttempted (exampleWorld\<lparr>writeFails := True, appendFails := (\<lambda>n. True)\<rparr>)
   \<and> outputPathValid (exampleWorld\<lparr>writeFails := True, appendFails := (\<lambda>n. True)\<rparr>)
   \<and> exitCode (exampleWorld\<lparr>writeFails := True, appendFails := (\<lambda>n. True)\<rparr>) = 1
   \<and> outputFile (finalState (exampleWorld\<lparr>writeFails := True, appendFails := (\<lambda>n. True)\<rparr>)) = []
   \<and> writeFails (exampleWorld\<lparr>writeFails := True, GITHUB_OUTPUT := None\<rparr>)
   \<and> writeAttempted (exampleWorld\<lparr>writeFails := True, GITHUB_OUTPUT := None\<rparr>)
   \<and> exitCode (exampleWorld\<lparr>writeFails := True, GITHUB_OUTPUT := None\<rparr>) = 1
   \<and> outputFile (finalState (exampleWorld\<lparr>writeFails := True, GITHUB_OUTPUT := None\<rparr>)) = []"
proof -
  let ?x = "exampleWorld\<lparr>writeFails := True, appendFails := (\<lambda>n. True)\<rparr>"
  let ?y = "exampleWorld\<lparr>writeFails := True, GITHUB_OUTPUT := None\<rparr>"
  have fx: "writeFails ?x" and fy: "writeFails ?y" by simp_all
  have vx: "outputPathValid ?x"
    by (simp add: outputPathValid_def outputFilePath_def exampleWorld_def)
  have vy: "\<not> outputPathValid ?y"
    by (simp add: outputPathValid_def outputFilePath_def)
  have ax: "writeAttempted ?x" and ay: "writeAttempted ?y"
    by (simp_all add: writeAttempted_iff exampleWorld_def)
  have rx: "\<not> outputPathValid ?x \<or> (\<forall>n. appendFails ?x n)" by simp
  have ry: "\<not> outputPathValid ?y \<or> (\<forall>n. appendFails ?y n)" using vy by simp
  have ex: "exitCode ?x = 1"
    using fx by (simp add: exitCode_def main_attempted [OF ax] publish_exit)
  have ey: "exitCode ?y = 1"
    using fy by (simp add: exitCode_def main_attempted [OF ay] publish_exit)
  have ox: "outputFile (finalState ?x) = []"
    by (simp add: finalState_def main_attempted [OF ax] publish_outputs_refused [OF rx])
  have oy: "outputFile (finalState ?y) = []"
    by (simp add: finalState_def main_attempted [OF ay] publish_outputs_refused [OF ry])
  show ?thesis using fx fy vx ax ay ex ey ox oy by blast
qed

text \<open>
  Claim C4, amended. When the write of the report file is attempted and fails, the
  failure is the \<open>None\<close> of \<open>writeCommentBodyToFile\<close>, which the run handles: it exits
  with 1 and writes no report file. It then tries, best effort, to emit an empty
  \<open>comment_body_file\<close> and a \<open>fallback_comment_body\<close> that is not empty and consists of
  the report title, the summary line in bold, the notice that the report file could not
  be written, and the link to the run when a repository URL and a run identifier are
  configured: what the output file holds is a subsequence of these two, and it holds
  exactly these two when the output file takes the appends.
\<close>

theorem write_failure_fallback:
  assumes fails: "writeFails w" and attempted: "writeAttempted w"
  shows "writeCommentBodyToFile w (finalCommentBody w (runReport w)) s = None
         \<and> exitCode w = 1
         \<and> reportFile (finalState w) = None
         \<and> fallbackBody w (runReport w)
             = reportTitle w @ newline @ ''**'' @ summaryLine (runReport w) @ ''**''
                 @ newline @ newline @ warningMark @ '' Error: Could not write report file.''
                 @ (if repoUrl w \<noteq> [] \<and> runId w \<noteq> []
                    then newline @ newline @ ''[View Full Action Run Details]('' @ repoUrl w
                           @ ''/actions/runs/'' @ runId w @ '')''
                    else [])
         \<and> fallbackBody w (runReport w) \<noteq> []
         \<and> subseq (outputFile (finalState w))
              [outputLine ''comment_body_file'' [],
               outputLine ''fallback_comment_body'' (fallbackBody w (runReport w))]
         \<and> (outputsWritable w \<longrightarrow>
               outputFile (finalState w)
                 = [outputLine ''comment_body_file'' [],
                    outputLine ''fallback_comment_body'' (fallbackBody w (runReport w))])"
proof (intro conjI impI)
  have m: "main w = publish w (runReport w) (snd (tryBlock w initialState))"
    using attempted by (rule main_attempted)
  show "writeCommentBodyToFile w (finalCommentBody w (runReport w)) s = None"
    using fails by (simp add: writeCommentBodyToFile_def)
  show "exitCode w = 1"
    using fails by (simp add: exitCode_def m publish_exit)
  show "reportFile (finalState w) = None"
    using fails
    by (simp add: finalState_def m publish_def writeCommentBodyToFile_def initialState_def)
  show "fallbackBody w (runReport w)
             = reportTitle w @ newline @ ''**'' @ summaryLine (runReport w) @ ''**''
                 @ newline @ newline @ warningMark @ '' Error: Could not write report file.''
                 @ (if repoUrl w \<noteq> [] \<and> runId w \<noteq> []
                    then newline @ newline @ ''[View Full Action Run Details]('' @ repoUrl w
                           @ ''/actions/runs/'' @ runId w @ '')''
                    else [])"
    by (simp add: fallbackBody_def viewMoreLink_def actionRunUrl_def)
  show "fallbackBody w (runReport w) \<noteq> []" by (rule fallbackBody_nonempty)
  show "subseq (outputFile (finalState w))
              [outputLine ''comment_body_file'' [],
               outputLine ''fallback_comment_body'' (fallbackBody w (runReport w))]"
    using publish_outputs_fallback_subseq [OF fails, of "runReport w" "snd (tryBlock w initialState)"]
    by (simp add: finalState_def m)
  assume "outputsWritable w"
  then show "outputFile (finalState w)
                 = [outputLine ''comment_body_file'' [],
                    outputLine ''fallback_comment_body'' (fallbackBody w (runReport w))]"
    using fails by (simp add: finalState_def m publish_outputs_fallback)
qed

theorem write_failure_fallback_witness:
  "writeFails (exampleWorld\<lparr>writeFails := True\<rparr>)
   \<and> writeAttempted (exampleWorld\<lparr>writeFails := True\<rparr>)
   \<and> outputsWritable (exampleWorld\<lparr>writeFails := True\<rparr>)
   \<and> exitCode (exampleWorld\<lparr>writeFails := True\<rparr>) = 1
   \<and> outputFile (finalState (exampleWorld\<lparr>writeFails := True\<rparr>))
       = [''comment_body_file='' @ newline,
          ''fallback_comment_body=## Theme Check Report for PR #7%0A''
            @ ''**1 error(s), 1 warning(s) found.**%0A%0A'' @ warningMark
            @ '' Error: Could not write report file.%0A%0A''
            @ ''[View Full Action Run Details](https://github.com/org/repo/actions/runs/99)''
            @ newline]"
proof -
  let ?w = "exampleWorld\<lparr>writeFails := True\<rparr>"
  note main = write_failure_fallback [OF exampleWorld_fields(2) exampleWorld_fields(4)]
  have x: "exitCode ?w = 1" using main by blast
  have "outputFile (finalState ?w)
       = [outputLine ''comment_body_file'' [],
          outputLine ''fallback_comment_body'' (fallbackBody ?w (runReport ?w))]"
    using main exampleWorld_fields(3) by blast
  then have "outputFile (finalState ?w)
       = [''comment_body_file='' @ newline,
          ''fallback_comment_body=## Theme Check Report for PR #7%0A''
            @ ''**1 error(s), 1 warning(s) found.**%0A%0A'' @ warningMark
            @ '' Error: Could not write report file.%0A%0A''
            @ ''[View Full Action Run Details](https://github.com/org/repo/actions/runs/99)''
            @ newline]"
    unfolding exampleWorld_fallback_line plain_output_lines .
  then show ?thesis using x exampleWorld_fields by blast
qed




text \<open>
  Claim C6. When the output destination is unset or empty, or its directory does not
  exist, the process exits with 1, the engine is never called, and nothing is appended
  to the output file, so no report path and no fallback body reach the posting step.
\<close>

theorem invalid_output_destination:
  assumes "GITHUB_OUTPUT w = None
           \<or> (\<exists>p. GITHUB_OUTPUT w = Some p \<and> (p = [] \<or> \<not> parentDirExists w p))"
  shows "exitCode w = 1 \<and> engineCalls (finalState w) = 0 \<and> outputFile (finalState w) = []"
proof (cases "engine w = RequireFails")
  case True
  then show ?thesis by (simp add: exitCode_def finalState_def main_def)
next
  case False
  have inv: "\<not> outputPathValid w" using assms by (simp add: outputPathValid_cases)
  have m: "main w = publish w (runReport w) (snd (tryBlock w initialState))"
    using False invalid_caught [OF inv] by (simp add: main_runs runCheck_publish)
  have "exitCode w = 1"
    using inv by (simp add: exitCode_def m publish_exit runReport_invalid failedReport_def)
  moreover have "engineCalls (finalState w) = 0"
    using inv
    by (simp add: finalState_def m publish_engineCalls tryBlock_engineCalls
        split: themeCheck.split)
  moreover have "outputFile (finalState w) = []"
    using inv by (simp add: finalState_def m publish_outputs_invalid)
  ultimately show ?thesis by simp
qed

theorem invalid_output_destination_witness:
  "GITHUB_OUTPUT (exampleWorld\<lparr>GITHUB_OUTPUT := None\<rparr>) = None
   \<and> exitCode (exampleWorld\<lparr>GITHUB_OUTPUT := None\<rparr>) = 1
   \<and> engineCalls (finalState (exampleWorld\<lparr>GITHUB_OUTPUT := None\<rparr>)) = 0
   \<and> outputFile (finalState (exampleWorld\<lparr>GITHUB_OUTPUT := None\<rparr>)) = []
   \<and> GITHUB_OUTPUT (exampleWorld\<lparr>parentDirExists := (\<lambda>p. False)\<rparr>) = Some ''/runner/output''
   \<and> \<not> parentDirExists (exampleWorld\<lparr>parentDirExists := (\<lambda>p. False)\<rparr>) ''/runner/output''
   \<and> exitCode (exampleWorld\<lparr>parentDirExists := (\<lambda>p. False)\<rparr>) = 1
   \<and> engineCalls (finalState (exampleWorld\<lparr>parentDirExists := (\<lambda>p. False)\<rparr>)) = 0
   \<and> outputFile (finalState (exampleWorld\<lparr>parentDirExists := (\<lambda>p. False)\<rparr>)) = []"
proof -
  let ?u = "exampleWorld\<lparr>GITHUB_OUTPUT := None\<rparr>"
  let ?d = "exampleWorld\<lparr>parentDirExists := (\<lambda>p. False)\<rparr>"
  have u: "GITHUB_OUTPUT ?u = None" by simp
  have d1: "GITHUB_OUTPUT ?d = Some ''/runner/output''" by (simp add: exampleWorld_def)
  have d2: "\<not> parentDirExists ?d ''/runner/output''" by simp
  have hu: "GITHUB_OUTPUT ?u = None
      \<or> (\<exists>p. GITHUB_OUTPUT ?u = Some p \<and> (p = [] \<or> \<not> parentDirExists ?u p))"
    using u by blast
  have hd: "GITHUB_OUTPUT ?d = None
      \<or> (\<exists>p. GITHUB_OUTPUT ?d = Some p \<and> (p = [] \<or> \<not> parentDirExists ?d p))"
    using d1 d2 by blast
  show ?thesis
    using invalid_output_destination [OF hu] invalid_output_destination [OF hd] u d1 d2
    by blast
qed

text \<open>
  Claim C7. An offense with no \<open>start\<close> field has the location suffix \<open>0:0\<close> in a code
  span and no link, whatever the repository URL, the commit identifier and the path are:
  its Markdown line is the plain path, the suffix, and the description.
\<close>

theorem absent_start_no_link:
  assumes "start off = None"
  shows "locationSuffix off = '':`0:0`''
         \<and> fileLinkOf off ws repo sha = []
         \<and> formatOffenseBlock off ws repo sha
             = ''- '' @ relativePathOf off ws repo sha @ '':`0:0`'' @ newline @ ''  ''
                 @ description off"
proof -
  have row: "startRow off = 0" and col: "startCol off = 0"
    using assms by (simp_all add: startRow_def startCol_def)
  have zero: "numToString 0 = ''0''"
    by (simp add: numToString_def digits.simps)
  have loc: "locationSuffix off = '':`0:0`''"
    by (simp add: locationSuffix_def row col zero)
  have link: "fileLinkOf off ws repo sha = []"
    by (simp add: fileLinkOf_cases row split: option.split)
  show ?thesis using loc link by (simp add: formatOffenseBlock_unfold)
qed

theorem absent_start_no_link_witness:
  "start (headerOffense\<lparr>start := None\<rparr>) = None
   \<and> validRelativePath (headerOffense\<lparr>start := None\<rparr>) ''/workspace''
   \<and> fileLinkOf (headerOffense\<lparr>start := None\<rparr>) ''/workspace'' ''https://github.com/org/repo'' ''abc123'' = []
   \<and> formatOffenseBlock (headerOffense\<lparr>start := None\<rparr>) ''/workspace'' ''https://github.com/org/repo'' ''abc123''
       = ''- sections/header.liquid:`0:0`'' @ newline @ ''  Missing translation (TranslationKeyExists)''"
proof -
  let ?o = "headerOffense\<lparr>start := None\<rparr>"
  let ?repo = "''https://github.com/org/repo''"
  have h: "start ?o = None" by simp
  have v: "validRelativePath ?o ''/workspace''" by code_simp
  have rel: "relativePathOf ?o ''/workspace'' ?repo ''abc123'' = ''sections/header.liquid''"
    by code_simp
  have des: "description ?o = ''Missing translation (TranslationKeyExists)''"
    by code_simp
  show ?thesis
    using absent_start_no_link [OF h, of "''/workspace''" ?repo "''abc123''"] h v rel des
    by simp
qed

text \<open>
  Claim C8. For an offense whose uri has the \<open>file\<close> scheme and whose decoded path does
  not start with the normalised workspace root, the decoded path is shown as it is and
  no link is produced, whatever the repository URL, the commit identifier and the
  starting line are. This holds for the root with exactly one trailing separator and
  for the root as the script normalises it: a path outside the former is outside the
  latter.
\<close>

theorem outside_workspace_no_link:
  assumes scheme: "startsWith (offenseUri off) ''file://''"
    and decoded: "decodeURIComponent (substring (offenseUri off) 7) = Some d"
    and outside: "\<not> startsWith d (baseWorkspacePath ws) \<or> \<not> startsWith d (normalizedRoot ws)"
  shows "relativePathOf off ws repo sha = d
         \<and> fileLinkOf off ws repo sha = []
         \<and> formatOffenseBlock off ws repo sha
             = ''- '' @ d @ locationSuffix off @ newline @ ''  '' @ description off"
proof -
  from outside have out: "\<not> startsWith d (baseWorkspacePath ws)"
    using outside_spec_root by blast
  have rel: "relativePathOf off ws repo sha = d"
    using scheme decoded out by (simp add: relativePathOf_def pathAndLink_def)
  have none: "derivedRelativePath off ws = None"
    using scheme decoded out by (simp add: derivedRelativePath_def)
  then have link: "fileLinkOf off ws repo sha = []"
    by (simp add: fileLinkOf_cases)
  show ?thesis using rel link by (simp add: formatOffenseBlock_unfold)
qed

theorem outside_workspace_no_link_witness:
  "startsWith (offenseUri headerOffense) ''file://''
   \<and> decodeURIComponent (substring (offenseUri headerOffense) 7)
       = Some ''/workspace/sections/header.liquid''
   \<and> \<not> startsWith ''/workspace/sections/header.liquid'' (baseWorkspacePath ''/work'')
   \<and> \<not> startsWith ''/workspace/sections/header.liquid'' (normalizedRoot ''/work'')
   \<and> 0 < startRow headerOffense
   \<and> relativePathOf headerOffense ''/work'' ''https://github.com/org/repo'' ''abc123''
       = ''/workspace/sections/header.liquid''
   \<and> fileLinkOf headerOffense ''/work'' ''https://github.com/org/repo'' ''abc123'' = []
   \<and> formatOffenseBlock headerOffense ''/work'' ''https://github.com/org/repo'' ''abc123''
       = ''- /workspace/sections/header.liquid:`12:4`'' @ newline
           @ ''  Missing translation (TranslationKeyExists)''"
proof -
  have s: "startsWith (offenseUri headerOffense) ''file://''" by code_simp
  have d: "decodeURIComponent (substring (offenseUri headerOffense) 7)
             = Some ''/workspace/sections/header.liquid''" by code_simp
  have o1: "\<not> startsWith ''/workspace/sections/header.liquid'' (baseWorkspacePath ''/work'')"
    by code_simp
  have o2: "\<not> startsWith ''/workspace/sections/header.liquid'' (normalizedRoot ''/work'')"
    by code_simp
  have r: "0 < startRow headerOffense" by code_simp
  have loc: "locationSuffix headerOffense = '':`12:4`''" by code_simp
  have des: "description headerOffense = ''Missing translation (TranslationKeyExists)''"
    by code_simp
  from o1 have o: "\<not> startsWith ''/workspace/sections/header.liquid'' (baseWorkspacePath ''/work'')
      \<or> \<not> startsWith ''/workspace/sections/header.liquid'' (normalizedRoot ''/work'')" ..
  show ?thesis
    using outside_workspace_no_link [OF s d o, of "''https://github.com/org/repo''" "''abc123''"]
      s d o1 o2 r loc des
    by simp
qed

text \<open>
  Claim C9, as stated, fails for a workspace root that ends in two separators. The
  script keeps such a root as it is, so a path inside \<open>/workspace/\<close> does not start with
  \<open>/workspace//\<close>; the relative path is then the whole decoded path, and joining it to the
  root with exactly one trailing separator does not give the decoded path back.
\<close>

theorem rejoin_spec_root_counterexample:
  "startsWith (offenseUri headerOffense) ''file://''
   \<and> decodeURIComponent (substring (offenseUri headerOffense) 7)
       = Some ''/workspace/sections/header.liquid''
   \<and> normalizedRoot ''/workspace//'' = ''/workspace/''
   \<and> strict_prefix (normalizedRoot ''/workspace//'') ''/workspace/sections/header.liquid''
   \<and> relativePathOf headerOffense ''/workspace//'' [] [] = ''/workspace/sections/header.liquid''
   \<and> normalizedRoot ''/workspace//'' @ relativePathOf headerOffense ''/workspace//'' [] []
       \<noteq> ''/workspace/sections/header.liquid''"
proof -
  have "startsWith (offenseUri headerOffense) ''file://''" by code_simp
  moreover have "decodeURIComponent (substring (offenseUri headerOffense) 7)
       = Some ''/workspace/sections/header.liquid''" by code_simp
  moreover have n: "normalizedRoot ''/workspace//'' = ''/workspace/''" by code_simp
  moreover have "strict_prefix (normalizedRoot ''/workspace//'') ''/workspace/sections/header.liquid''"
    unfolding n by (simp add: strict_prefix_def)
  moreover have r: "relativePathOf headerOffense ''/workspace//'' [] []
      = ''/workspace/sections/header.liquid''" by code_simp
  moreover have "normalizedRoot ''/workspace//'' @ relativePathOf headerOffense ''/workspace//'' [] []
       \<noteq> ''/workspace/sections/header.liquid''"
    unfolding n r by simp
  ultimately show ?thesis by blast
qed

text \<open>
  Claim C9, amended. For an offense whose uri has the \<open>file\<close> scheme and whose decoded
  path starts with the workspace root as the script normalises it (a separator is
  appended unless the root already ends with one), that root followed by the computed
  relative path is the decoded path again. When the workspace root does not end in two
  separators, the script's root is the root with exactly one trailing separator.
\<close>

theorem rejoin_base_root:
  assumes scheme: "startsWith (offenseUri off) ''file://''"
    and decoded: "decodeURIComponent (substring (offenseUri off) 7) = Some d"
    and inside: "startsWith d (baseWorkspacePath ws)"
  shows "baseWorkspacePath ws @ relativePathOf off ws repo sha = d
         \<and> (\<not> endsWith ws ''//'' \<longrightarrow> normalizedRoot ws @ relativePathOf off ws repo sha = d)"
proof -
  have "derivedRelativePath off ws = Some (substring d (length (baseWorkspacePath ws)))"
    using scheme decoded inside by (simp add: derivedRelativePath_def)
  then have "relativePathOf off ws repo sha = substring d (length (baseWorkspacePath ws))"
    by (rule relativePathOf_derived)
  then have "baseWorkspacePath ws @ relativePathOf off ws repo sha = d"
    using inside by (simp add: startsWith_rejoin)
  then show ?thesis by (simp add: normalizedRoot_eq_base)
qed

theorem rejoin_base_root_witness:
  "startsWith (offenseUri headerOffense) ''file://''
   \<and> decodeURIComponent (substring (offenseUri headerOffense) 7)
       = Some ''/workspace/sections/header.liquid''
   \<and> startsWith ''/workspace/sections/header.liquid'' (baseWorkspacePath ''/workspace'')
   \<and> \<not> endsWith ''/workspace'' ''//''
   \<and> baseWorkspacePath ''/workspace'' @ relativePathOf headerOffense ''/workspace'' [] []
       = ''/workspace/sections/header.liquid''
   \<and> normalizedRoot ''/workspace'' @ relativePathOf headerOffense ''/workspace'' [] []
       = ''/workspace/sections/header.liquid''"
proof -
  have s: "startsWith (offenseUri headerOffense) ''file://''" by code_simp
  have d: "decodeURIComponent (substring (offenseUri headerOffense) 7)
             = Some ''/workspace/sections/header.liquid''" by code_simp
  have i: "startsWith ''/workspace/sections/header.liquid'' (baseWorkspacePath ''/workspace'')"
    by code_simp
  have e: "\<not> endsWith ''/workspace'' ''//''" by code_simp
  show ?thesis using rejoin_base_root [OF s d i, of "[]" "[]"] s d i e by blast
qed

text \<open>
  Claim C10. When writing the report file fails, nothing is appended to the output file
  but the empty \<open>comment_body_file\<close> and the \<open>fallback_comment_body\<close>: no chunk of the
  file starts with \<open>error_count=\<close> or \<open>warning_count=\<close>. When the write was attempted
  and the output file takes appends, the file holds exactly those two.
\<close>

theorem write_failure_no_counts:
  assumes "writeFails w"
  shows "set (outputFile (finalState w))
           \<subseteq> {outputLine ''comment_body_file'' [],
               outputLine ''fallback_comment_body'' (fallbackBody w (runReport w))}
         \<and> (\<forall>c \<in> set (outputFile (finalState w)).
               \<not> prefix ''error_count='' c \<and> \<not> prefix ''warning_count='' c)
         \<and> (writeAttempted w \<and> outputsWritable w \<longrightarrow>
               outputFile (finalState w)
                 = [outputLine ''comment_body_file'' [],
                    outputLine ''fallback_comment_body'' (fallbackBody w (runReport w))])"
proof -
  have sub: "set (outputFile (finalState w))
           \<subseteq> {outputLine ''comment_body_file'' [],
               outputLine ''fallback_comment_body'' (fallbackBody w (runReport w))}"
  proof (cases "writeAttempted w")
    case True
    then have "main w = publish w (runReport w) (snd (tryBlock w initialState))"
      by (rule main_attempted)
    then show ?thesis
      using publish_outputs_fallback_only [OF assms, of "runReport w" "snd (tryBlock w initialState)"]
      by (simp add: finalState_def)
  next
    case False
    then have "engine w = RequireFails \<or> uncaught w" by (simp add: writeAttempted_def)
    then have "outputFile (finalState w) = []"
    proof (cases "engine w = RequireFails")
      case True
      then show ?thesis by (simp add: finalState_def main_def)
    next
      case loaded: False
      with \<open>engine w = RequireFails \<or> uncaught w\<close> have "uncaught w" by simp
      then show ?thesis
        by (simp add: finalState_def main_runs [OF loaded] runCheck_uncaught)
    qed
    then show ?thesis by simp
  qed
  have names: "\<not> prefix ''error_count='' c \<and> \<not> prefix ''warning_count='' c"
    if "c \<in> {outputLine ''comment_body_file'' [],
               outputLine ''fallback_comment_body'' (fallbackBody w (runReport w))}" for c
    using that by (auto simp: outputLine_def)
  have full: "outputFile (finalState w)
                 = [outputLine ''comment_body_file'' [],
                    outputLine ''fallback_comment_body'' (fallbackBody w (runReport w))]"
    if "writeAttempted w \<and> outputsWritable w"
    using that assms
    by (simp add: finalState_def main_attempted publish_outputs_fallback)
  show ?thesis using sub names full by blast
qed

theorem write_failure_no_counts_witness:
  "writeFails (exampleWorld\<lparr>writeFails := True\<rparr>)
   \<and> writeAttempted (exampleWorld\<lparr>writeFails := True\<rparr>)
   \<and> outputsWritable (exampleWorld\<lparr>writeFails := True\<rparr>)
   \<and> outputLine ''error_count'' ''1''
       \<notin> set (outputFile (finalState (exampleWorld\<lparr>writeFails := True\<rparr>)))
   \<and> outputLine ''warning_count'' ''1''
       \<notin> set (outputFile (finalState (exampleWorld\<lparr>writeFails := True\<rparr>)))
   \<and> length (outputFile (finalState (exampleWorld\<lparr>writeFails := True\<rparr>))) = 2"
proof -
  let ?w = "exampleWorld\<lparr>writeFails := True\<rparr>"
  note main = write_failure_no_counts [OF exampleWorld_fields(2)]
  have e: "prefix ''error_count='' (outputLine ''error_count'' ''1'')"
    by (simp add: outputLine_def)
  have n: "prefix ''warning_count='' (outputLine ''warning_count'' ''1'')"
    by (simp add: outputLine_def)
  have "outputFile (finalState ?w)
          = [outputLine ''comment_body_file'' [],
             outputLine ''fallback_comment_body'' (fallbackBody ?w (runReport ?w))]"
    using main exampleWorld_fields by blast
  then have len: "length (outputFile (finalState ?w)) = 2" by simp
  have "outputLine ''error_count'' ''1'' \<notin> set (outputFile (finalState ?w))"
    using main e by blast
  moreover have "outputLine ''warning_count'' ''1'' \<notin> set (outputFile (finalState ?w))"
    using main n by blast
  ultimately show ?thesis using exampleWorld_fields len by blast
qed

end
